theory Spec2Isabelle
  imports Complex_Main
begin

section \<open>Characters and strings\<close>

text \<open>
  Texts are modelled as lists of 8-bit characters and the development covers ASCII
  input: the character tests below are those of Python's \<^verbatim>\<open>str\<close> methods and of the
  \<^verbatim>\<open>re\<close> module restricted to code points below 128.
\<close>

definition is_space :: "char \<Rightarrow> bool" where
  \<comment> \<open>\<^verbatim>\<open>str.isspace\<close> and \<^verbatim>\<open>\s\<close>: tab, LF, VT, FF, CR, the separators 0x1C..0x1F, space\<close>
  "is_space c = (let n = (of_char c :: nat) in (9 \<le> n \<and> n \<le> 13) \<or> (28 \<le> n \<and> n \<le> 32))"

definition is_digit :: "char \<Rightarrow> bool" where
  "is_digit c = (let n = (of_char c :: nat) in 48 \<le> n \<and> n \<le> 57)"

definition is_upper :: "char \<Rightarrow> bool" where
  "is_upper c = (let n = (of_char c :: nat) in 65 \<le> n \<and> n \<le> 90)"

definition is_lower :: "char \<Rightarrow> bool" where
  "is_lower c = (let n = (of_char c :: nat) in 97 \<le> n \<and> n \<le> 122)"

definition is_word :: "char \<Rightarrow> bool" where
  \<comment> \<open>\<^verbatim>\<open>\w\<close>: letters, digits and the underscore\<close>
  "is_word c = (is_digit c \<or> is_upper c \<or> is_lower c \<or> c = CHR ''_'')"

definition lower_c :: "char \<Rightarrow> char" where
  \<comment> \<open>an upper-case letter and its lower-case form differ in the bit of value 32\<close>
  "lower_c c =
     (if is_upper c
      then (case c of Char b0 b1 b2 b3 b4 b5 b6 b7 \<Rightarrow> Char b0 b1 b2 b3 b4 True b6 b7)
      else c)"

definition upper_c :: "char \<Rightarrow> char" where
  "upper_c c =
     (if is_lower c
      then (case c of Char b0 b1 b2 b3 b4 b5 b6 b7 \<Rightarrow> Char b0 b1 b2 b3 b4 False b6 b7)
      else c)"

definition lower :: "string \<Rightarrow> string" where
  "lower s = map lower_c s"

definition upper :: "string \<Rightarrow> string" where
  "upper s = map upper_c s"

definition strip :: "string \<Rightarrow> string" where
  \<comment> \<open>\<^verbatim>\<open>str.strip()\<close>: whitespace removed at both ends\<close>
  "strip s = rev (dropWhile is_space (rev (dropWhile is_space s)))"

definition remove_char :: "char \<Rightarrow> string \<Rightarrow> string" where
  \<comment> \<open>\<^verbatim>\<open>s.replace(c, "")\<close> for a one-character \<^verbatim>\<open>c\<close>\<close>
  "remove_char c s = filter (\<lambda>x. x \<noteq> c) s"

fun split_acc :: "string \<Rightarrow> string \<Rightarrow> string list" where
  "split_acc cur [] = (if cur = [] then [] else [cur])"
| "split_acc cur (c # cs) =
     (if is_space c then (if cur = [] then split_acc [] cs else cur # split_acc [] cs)
      else split_acc (cur @ [c]) cs)"

definition split_ws :: "string \<Rightarrow> string list" where
  \<comment> \<open>\<^verbatim>\<open>str.split()\<close> without a separator: the maximal runs of non-whitespace\<close>
  "split_ws s = split_acc [] s"

fun starts_with :: "string \<Rightarrow> string \<Rightarrow> bool" where
  "starts_with [] s = True"
| "starts_with (p # ps) [] = False"
| "starts_with (p # ps) (c # cs) = (p = c \<and> starts_with ps cs)"

fun contains :: "string \<Rightarrow> string \<Rightarrow> bool" where
  \<comment> \<open>\<^verbatim>\<open>sub in s\<close>\<close>
  "contains sub [] = (sub = [])"
| "contains sub (c # cs) = (starts_with sub (c # cs) \<or> contains sub cs)"

section \<open>Text Normalizer\<close>

fun sub_ws :: "bool \<Rightarrow> string \<Rightarrow> string" where
  \<comment> \<open>\<^verbatim>\<open>re.sub(r'\s+', ' ', s)\<close> is \<open>sub_ws False s\<close>; the flag tells that the scan is
      inside a run of whitespace already replaced\<close>
  "sub_ws in_run [] = []"
| "sub_ws in_run (c # cs) =
     (if is_space c then (if in_run then sub_ws True cs else CHR '' '' # sub_ws True cs)
      else c # sub_ws False cs)"

definition clean_text :: "string \<Rightarrow> string" where
  "clean_text text =
     strip (sub_ws False (map (\<lambda>c. if c = CHR 0x0A then CHR '' '' else c) text))"

section \<open>Numbers\<close>

text \<open>
  Python floats are modelled as exact rationals: a decimal literal denotes its exact
  value, and \<^verbatim>\<open>round(x, 3)\<close> rounds that value to a multiple of 1/1000, ties to even.
  Binary representation error is outside the model. \<^verbatim>\<open>float()\<close> is modelled on the
  literals the matchers can capture (characters \<^verbatim>\<open>0-9 . , $ + -\<close> and surrounding
  whitespace): an optional sign and decimal digits with at most one point; exponents,
  underscores, \<^verbatim>\<open>inf\<close> and \<^verbatim>\<open>nan\<close> are not modelled.
\<close>

definition digit_val :: "char \<Rightarrow> nat" where
  "digit_val c = (of_char c :: nat) - 48"

definition nat_of_digits :: "string \<Rightarrow> nat" where
  "nat_of_digits ds = foldl (\<lambda>a c. 10 * a + digit_val c) 0 ds"

definition unsigned_float :: "string \<Rightarrow> rat option" where
  "unsigned_float body =
     (let ip = takeWhile is_digit body; r = dropWhile is_digit body in
      case r of
        [] \<Rightarrow> if ip = [] then None else Some (of_nat (nat_of_digits ip))
      | c # fp \<Rightarrow>
          if c = CHR ''.'' \<and> list_all is_digit fp \<and> (ip \<noteq> [] \<or> fp \<noteq> [])
          then Some (of_nat (nat_of_digits ip) + of_nat (nat_of_digits fp) / 10 ^ length fp)
          else None)"

definition is_float_space :: "char \<Rightarrow> bool" where
  \<comment> \<open>the whitespace \<^verbatim>\<open>float()\<close> skips at both ends: tab, LF, VT, FF, CR, space\<close>
  "is_float_space c = (let n = (of_char c :: nat) in (9 \<le> n \<and> n \<le> 13) \<or> n = 32)"

definition py_float :: "string \<Rightarrow> rat option" where
  \<comment> \<open>\<^verbatim>\<open>float(s)\<close>; \<open>None\<close> stands for ValueError\<close>
  "py_float s =
     (case rev (dropWhile is_float_space (rev (dropWhile is_float_space s))) of
        [] \<Rightarrow> None
      | c # cs \<Rightarrow>
          if c = CHR ''-'' then map_option uminus (unsigned_float cs)
          else if c = CHR ''+'' then unsigned_float cs
          else unsigned_float (c # cs))"

definition round_half_even :: "rat \<Rightarrow> int" where
  "round_half_even x =
     (let f = \<lfloor>x\<rfloor>; d = x - of_int f in
      if d < 1 / 2 then f else if 1 / 2 < d then f + 1 else if even f then f else f + 1)"

definition py_round3 :: "rat \<Rightarrow> rat" where
  \<comment> \<open>\<^verbatim>\<open>round(x, 3)\<close>\<close>
  "py_round3 x = of_int (round_half_even (x * 1000)) / 1000"

section \<open>Numeric/Unit Normalizer\<close>

definition normalize_number :: "string \<Rightarrow> string option \<Rightarrow> rat option" where
  "normalize_number num_str unit =
     (case py_float (remove_char (CHR ''$'') (remove_char (CHR '','') num_str)) of
        None \<Rightarrow> None
      | Some num \<Rightarrow>
          (let u = strip (lower (case unit of None \<Rightarrow> [] | Some x \<Rightarrow> x)) in
           if u \<in> set [''billion'', ''bn'', ''b''] then Some (py_round3 (num * 1000))
           else if u \<in> set [''million'', ''mn'', ''mm'', ''m''] then Some (py_round3 num)
           else if u \<in> set [''thousand'', ''k''] then Some (py_round3 (num / 1000))
           else if 1000000 \<le> num then Some (py_round3 (num / 1000000))
           else Some (py_round3 num)))"

section \<open>Spoken-Number Decoder\<close>

definition NUM_WORDS :: "(string \<times> nat) list" where
  "NUM_WORDS =
     [(''zero'', 0), (''one'', 1), (''two'', 2), (''three'', 3), (''four'', 4), (''five'', 5),
      (''six'', 6), (''seven'', 7), (''eight'', 8), (''nine'', 9), (''ten'', 10),
      (''eleven'', 11), (''twelve'', 12), (''thirteen'', 13), (''fourteen'', 14),
      (''fifteen'', 15), (''sixteen'', 16), (''seventeen'', 17), (''eighteen'', 18),
      (''nineteen'', 19), (''twenty'', 20), (''thirty'', 30), (''forty'', 40),
      (''fifty'', 50), (''sixty'', 60), (''seventy'', 70), (''eighty'', 80),
      (''ninety'', 90), (''hundred'', 100)]"

definition digit_char :: "nat \<Rightarrow> char" where
  "digit_char d = ''0123456789'' ! d"

fun str_nat :: "nat \<Rightarrow> string" where
  \<comment> \<open>\<^verbatim>\<open>str(n)\<close> of a non-negative integer\<close>
  "str_nat n = (if n < 10 then [digit_char n] else str_nat (n div 10) @ [digit_char (n mod 10)])"

declare str_nat.simps [simp del]

definition all_digits :: "string \<Rightarrow> bool" where
  \<comment> \<open>\<^verbatim>\<open>re.match(r"^\d+$", tok)\<close> on a token without whitespace\<close>
  "all_digits tok = (tok \<noteq> [] \<and> list_all is_digit tok)"

fun spoken_loop :: "string list \<Rightarrow> string list \<Rightarrow> string list" where
  \<comment> \<open>the \<^verbatim>\<open>for tok in tokens\<close> loop with its \<^verbatim>\<open>break\<close>; the second argument is \<^verbatim>\<open>digits\<close>\<close>
  "spoken_loop [] digits = digits"
| "spoken_loop (tok # toks) digits =
     (if (case map_of NUM_WORDS tok of Some n \<Rightarrow> n < 100 | None \<Rightarrow> False)
      then spoken_loop toks (digits @ [str_nat (the (map_of NUM_WORDS tok))])
      else if tok \<in> set [''oh'', ''o''] then spoken_loop toks (digits @ [''0''])
      else if all_digits tok then spoken_loop toks (digits @ [tok])
      else digits)"

definition spoken_to_number :: "string \<Rightarrow> int option" where
  "spoken_to_number text =
     (let digits = spoken_loop (split_ws (lower text)) [] in
      if digits \<noteq> [] then Some (int (nat_of_digits (concat digits))) else None)"

section \<open>Regular expressions\<close>

text \<open>
  The patterns of the source are values of \<open>rx\<close>, and \<open>rx_match\<close> is the backtracking
  matcher of Python's \<^verbatim>\<open>re\<close>: alternatives are tried left to right, a greedy
  repetition tries one more iteration before it tries to stop, a lazy one the other way
  round, and the first complete match in that order is the result. The Boolean argument
  is the flag \<^verbatim>\<open>re.IGNORECASE\<close>. A matcher state holds the text before the current
  position (reversed), the text from it on, and the groups captured so far.
\<close>

datatype cset = CDigit | CSpace | CWord | CChr char | CRange char char

fun in_cset :: "cset \<Rightarrow> char \<Rightarrow> bool" where
  "in_cset CDigit c = is_digit c"
| "in_cset CSpace c = is_space c"
| "in_cset CWord c = is_word c"
| "in_cset (CChr x) c = (c = x)"
| "in_cset (CRange a b) c = ((of_char a :: nat) \<le> of_char c \<and> (of_char c :: nat) \<le> of_char b)"

definition in_class :: "bool \<Rightarrow> cset list \<Rightarrow> char \<Rightarrow> bool" where
  "in_class ic cs c =
     (list_ex (\<lambda>s. in_cset s c) cs \<or>
      (ic \<and> (list_ex (\<lambda>s. in_cset s (lower_c c)) cs \<or> list_ex (\<lambda>s. in_cset s (upper_c c)) cs)))"

datatype rx =
    Eps
  | Lit string
  | OneOf "cset list"
  | Dot
  | WordB
  | Seq rx rx
  | Alt rx rx
  | Rep rx nat "nat option" bool
  | Grp nat rx

datatype mstate = MState (seen: string) (rest: string) (caps: "(nat \<times> string) list")

fun match_lit :: "bool \<Rightarrow> string \<Rightarrow> mstate \<Rightarrow> mstate option" where
  "match_lit ic [] st = Some st"
| "match_lit ic (p # ps) (MState sn [] g) = None"
| "match_lit ic (p # ps) (MState sn (c # cs) g) =
     (if (if ic then lower_c c = lower_c p else c = p)
      then match_lit ic ps (MState (c # sn) cs g) else None)"

definition at_boundary :: "mstate \<Rightarrow> bool" where
  \<comment> \<open>\<^verbatim>\<open>\b\<close>: exactly one of the two neighbouring positions holds a word character\<close>
  "at_boundary st =
     ((case seen st of [] \<Rightarrow> False | c # _ \<Rightarrow> is_word c) \<noteq>
      (case rest st of [] \<Rightarrow> False | c # _ \<Rightarrow> is_word c))"

definition set_cap :: "nat \<Rightarrow> mstate \<Rightarrow> mstate \<Rightarrow> mstate" where
  \<comment> \<open>group \<open>n\<close> is the text consumed between the state \<open>st\<close> and the later state \<open>st'\<close>\<close>
  "set_cap n st st' =
     MState (seen st') (rest st')
       ((n, rev (take (length (seen st') - length (seen st)) (seen st'))) # caps st')"

fun rep :: "(mstate \<Rightarrow> (mstate \<Rightarrow> 'a option) \<Rightarrow> 'a option) \<Rightarrow> bool \<Rightarrow> nat \<Rightarrow> nat \<Rightarrow>
    mstate \<Rightarrow> (mstate \<Rightarrow> 'a option) \<Rightarrow> 'a option" where
  \<comment> \<open>between \<open>lo\<close> and \<open>hi\<close> further iterations of the body \<open>f\<close>, then the continuation\<close>
  "rep f greedy lo 0 st k = (if lo = 0 then k st else None)"
| "rep f greedy lo (Suc hi) st k =
     (if 0 < lo then f st (\<lambda>st'. rep f greedy (lo - 1) hi st' k)
      else if greedy then
        (case f st (\<lambda>st'. rep f greedy 0 hi st' k) of Some r \<Rightarrow> Some r | None \<Rightarrow> k st)
      else
        (case k st of Some r \<Rightarrow> Some r | None \<Rightarrow> f st (\<lambda>st'. rep f greedy 0 hi st' k)))"

text \<open>
  Every repeated body in the source consumes at least one character, so an unbounded
  repetition runs at most as many iterations as characters remain: \<open>Rep r lo None g\<close>
  takes that number as its upper bound.
\<close>

primrec rx_match :: "bool \<Rightarrow> rx \<Rightarrow> mstate \<Rightarrow> (mstate \<Rightarrow> 'a option) \<Rightarrow> 'a option" where
  "rx_match ic Eps st k = k st"
| "rx_match ic (Lit s) st k = (case match_lit ic s st of None \<Rightarrow> None | Some st' \<Rightarrow> k st')"
| "rx_match ic (OneOf cs) st k =
     (case rest st of [] \<Rightarrow> None
      | c # r \<Rightarrow> if in_class ic cs c then k (MState (c # seen st) r (caps st)) else None)"
| "rx_match ic Dot st k =
     (case rest st of [] \<Rightarrow> None
      | c # r \<Rightarrow> if c \<noteq> CHR 0x0A then k (MState (c # seen st) r (caps st)) else None)"
| "rx_match ic WordB st k = (if at_boundary st then k st else None)"
| "rx_match ic (Seq a b) st k = rx_match ic a st (\<lambda>st'. rx_match ic b st' k)"
| "rx_match ic (Alt a b) st k =
     (case rx_match ic a st k of Some r \<Rightarrow> Some r | None \<Rightarrow> rx_match ic b st k)"
| "rx_match ic (Rep r lo hi greedy) st k =
     rep (rx_match ic r) greedy lo (case hi of None \<Rightarrow> length (rest st) | Some h \<Rightarrow> h) st k"
| "rx_match ic (Grp n r) st k = rx_match ic r st (\<lambda>st'. k (set_cap n st st'))"

definition match_here :: "bool \<Rightarrow> rx \<Rightarrow> string \<Rightarrow> string \<Rightarrow> mstate option" where
  \<comment> \<open>a match starting exactly between \<open>sn\<close> (reversed) and \<open>s\<close>; group 0 is the whole match\<close>
  "match_here ic r sn s = rx_match ic (Grp 0 r) (MState sn s []) Some"

fun rx_scan :: "bool \<Rightarrow> rx \<Rightarrow> string \<Rightarrow> string \<Rightarrow> mstate option" where
  "rx_scan ic r sn [] = match_here ic r sn []"
| "rx_scan ic r sn (c # cs) =
     (case match_here ic r sn (c # cs) of
        Some st \<Rightarrow> Some st
      | None \<Rightarrow> rx_scan ic r (c # sn) cs)"

definition re_search :: "bool \<Rightarrow> rx \<Rightarrow> string \<Rightarrow> mstate option" where
  \<comment> \<open>\<^verbatim>\<open>pattern.search(s)\<close>: the match at the leftmost position that has one\<close>
  "re_search ic r s = rx_scan ic r [] s"

definition re_match :: "bool \<Rightarrow> rx \<Rightarrow> string \<Rightarrow> mstate option" where
  \<comment> \<open>\<^verbatim>\<open>re.match(pattern, s)\<close>: a match at the start of \<open>s\<close>\<close>
  "re_match ic r s = match_here ic r [] s"

definition group :: "mstate \<Rightarrow> nat \<Rightarrow> string option" where
  \<comment> \<open>\<^verbatim>\<open>m.group(n)\<close>; \<open>None\<close> when the group took no part in the match\<close>
  "group st n = map_of (caps st) n"

definition group_str :: "mstate \<Rightarrow> nat \<Rightarrow> string" where
  "group_str st n = (case group st n of None \<Rightarrow> [] | Some s \<Rightarrow> s)"

fun rx_findall :: "bool \<Rightarrow> rx \<Rightarrow> string \<Rightarrow> string \<Rightarrow> nat \<Rightarrow> mstate list" where
  \<comment> \<open>the non-overlapping matches from left to right; \<open>skip\<close> counts the characters still
      covered by the previous match. The pattern this is used with matches no empty text.\<close>
  "rx_findall ic r sn [] skip =
     (if skip = 0 then (case match_here ic r sn [] of Some st \<Rightarrow> [st] | None \<Rightarrow> []) else [])"
| "rx_findall ic r sn (c # cs) skip =
     (if 0 < skip then rx_findall ic r (c # sn) cs (skip - 1)
      else case match_here ic r sn (c # cs) of
             None \<Rightarrow> rx_findall ic r (c # sn) cs 0
           | Some st \<Rightarrow> st # rx_findall ic r (c # sn) cs (length (group_str st 0) - 1))"

definition re_findall :: "bool \<Rightarrow> rx \<Rightarrow> string \<Rightarrow> mstate list" where
  "re_findall ic r s = rx_findall ic r [] s 0"

subsection \<open>Pattern fragments shared by the matchers\<close>

fun cat :: "rx list \<Rightarrow> rx" where
  "cat [] = Eps"
| "cat [r] = r"
| "cat (r # rs) = Seq r (cat rs)"

fun alts :: "string list \<Rightarrow> rx" where
  "alts [] = OneOf []"
| "alts [s] = Lit s"
| "alts (s # ss) = Alt (Lit s) (alts ss)"

definition opt :: "rx \<Rightarrow> rx" where
  "opt r = Rep r 0 (Some 1) True"

definition star :: "cset list \<Rightarrow> rx" where
  "star cs = Rep (OneOf cs) 0 None True"

definition plus :: "cset list \<Rightarrow> rx" where
  "plus cs = Rep (OneOf cs) 1 None True"

definition ws0 :: rx where "ws0 = star [CSpace]"
definition ws1 :: rx where "ws1 = plus [CSpace]"

definition words_lazy :: "nat option \<Rightarrow> rx" where
  \<comment> \<open>\<^verbatim>\<open>(?:\s+\w+){0,n}?\<close>, and \<^verbatim>\<open>(?:\s+\w+)*?\<close> for \<open>None\<close>\<close>
  "words_lazy n = Rep (Seq ws1 (plus [CWord])) 0 n False"

definition dollar_opt :: rx where "dollar_opt = opt (Lit ''$'')"

definition num_cd :: rx where
  \<comment> \<open>\<^verbatim>\<open>[\d,]+(?:\.\d+)?\<close>\<close>
  "num_cd = Seq (plus [CDigit, CChr (CHR '','')]) (opt (Seq (Lit ''.'') (plus [CDigit])))"

definition num_cdd :: rx where
  \<comment> \<open>\<^verbatim>\<open>[\d,\.]+\<close>\<close>
  "num_cdd = plus [CDigit, CChr (CHR '',''), CChr (CHR ''.'')]"

definition num_grouped :: rx where
  \<comment> \<open>\<^verbatim>\<open>[\d]{1,3}(?:,\d{3})+|\d+(?:\.\d+)?\<close>\<close>
  "num_grouped =
     Alt (Seq (Rep (OneOf [CDigit]) 1 (Some 3) True)
              (Rep (Seq (Lit '','') (Rep (OneOf [CDigit]) 3 (Some 3) True)) 1 None True))
         (Seq (plus [CDigit]) (opt (Seq (Lit ''.'') (plus [CDigit]))))"

definition qualifier :: rx where
  "qualifier = alts [''approximately'', ''about'', ''around'', ''nearly'', ''over'', ''~'']"

definition units_k4 :: rx where
  \<comment> \<open>\<^verbatim>\<open>billion|million|thousand|k|bn|mn|mm|m|b\<close>\<close>
  "units_k4 = alts [''billion'', ''million'', ''thousand'', ''k'', ''bn'', ''mn'', ''mm'', ''m'', ''b'']"

definition units_k9 :: rx where
  \<comment> \<open>\<^verbatim>\<open>billion|million|thousand|bn|mn|mm|m|b|k\<close>\<close>
  "units_k9 = alts [''billion'', ''million'', ''thousand'', ''bn'', ''mn'', ''mm'', ''m'', ''b'', ''k'']"

definition verbs_std :: rx where
  "verbs_std = alts [''was'', ''were'', ''of'', ''at'', ''totaled'', ''amounted to'', ''came in at'',
     ''reported at'', ''reached'']"

definition verbs_came_to :: rx where
  "verbs_came_to = alts [''was'', ''were'', ''of'', ''at'', ''totaled'', ''amounted to'', ''came in at'',
     ''reported at'', ''came to'', ''reached'']"

definition loss_marker :: rx where
  \<comment> \<open>\<^verbatim>\<open>\b(loss|negative|deficit)\b\<close>\<close>
  "loss_marker = cat [WordB, Grp 1 (alts [''loss'', ''negative'', ''deficit'']), WordB]"

section \<open>Metric matchers\<close>

text \<open>
  The sentence segmentation of the source is done by an external language model
  (\<^verbatim>\<open>nlp(t).sents\<close>); the matchers that use it take it as the parameter \<open>sents\<close>, which
  maps a text to the texts of its sentences in document order.
\<close>

subsection \<open>Revenue\<close>

definition revenue_pattern :: rx where
  "revenue_pattern =
     cat [WordB, Grp 1 (Lit ''revenue''), WordB, words_lazy (Some 5),
          opt verbs_std, ws0, opt qualifier, ws0,
          dollar_opt, ws0, Grp 2 num_cd, ws0, opt (Grp 3 units_k4)]"

definition revenue_fallback_pattern :: rx where
  \<comment> \<open>\<^verbatim>\<open>\$([\d,]{7,})(?:\.\d+)?\<close>\<close>
  "revenue_fallback_pattern =
     cat [Lit ''$'', Grp 1 (Rep (OneOf [CDigit, CChr (CHR '','')]) 7 None True),
          opt (Seq (Lit ''.'') (plus [CDigit]))]"

fun revenue_loop :: "mstate list \<Rightarrow> rat option" where
  \<comment> \<open>\<^verbatim>\<open>for _, number, unit in matches\<close>; \<^verbatim>\<open>findall\<close> gives the empty string for an absent group\<close>
  "revenue_loop [] = None"
| "revenue_loop (m # ms) =
     (case normalize_number (group_str m 2) (Some (group_str m 3)) of
        Some val \<Rightarrow> Some val
      | None \<Rightarrow> revenue_loop ms)"

definition revenue_fallback :: "string \<Rightarrow> rat option" where
  "revenue_fallback t =
     (if contains ''revenue'' (lower t) then
        (case re_search True revenue_fallback_pattern t of
           Some fm \<Rightarrow> normalize_number (group_str fm 1) None
         | None \<Rightarrow> None)
      else None)"

definition parse_revenue :: "string \<Rightarrow> rat option" where
  "parse_revenue text =
     (let t = clean_text text in
      case revenue_loop (re_findall True revenue_pattern t) of
        Some val \<Rightarrow> Some val
      | None \<Rightarrow> revenue_fallback t)"

subsection \<open>Net income\<close>

definition net_income_pattern :: rx where
  "net_income_pattern =
     cat [WordB, Lit ''net'', ws1, Grp 1 (alts [''income'', ''earnings'', ''profit'', ''loss'']), WordB,
          words_lazy (Some 6), ws0, opt verbs_came_to, ws0, opt qualifier, ws0,
          dollar_opt, ws0, Grp 2 num_cd, ws0, opt (Grp 3 units_k9)]"

definition net_income_value :: "mstate \<Rightarrow> rat option" where
  \<comment> \<open>the body of \<^verbatim>\<open>if m:\<close>, which returns in every case\<close>
  "net_income_value m =
     (let val = normalize_number (remove_char (CHR '','') (group_str m 2)) (group m 3) in
      if val \<noteq> None \<and> lower (group_str m 1) = ''loss'' then map_option uminus val else val)"

fun net_income_loop :: "string list \<Rightarrow> rat option" where
  "net_income_loop [] = None"
| "net_income_loop (s # ss) =
     (case re_search True net_income_pattern s of
        Some m \<Rightarrow> net_income_value m
      | None \<Rightarrow> net_income_loop ss)"

definition parse_net_income :: "(string \<Rightarrow> string list) \<Rightarrow> string \<Rightarrow> rat option" where
  "parse_net_income sents text =
     (let t = clean_text text;
          sentences = filter (\<lambda>s. \<not> contains ''adjusted net income'' (lower s)) (sents t)
      in net_income_loop sentences)"

subsection \<open>Adjusted net income\<close>

definition adjusted_net_income_before :: rx where
  "adjusted_net_income_before =
     cat [dollar_opt, ws0, Grp 1 num_grouped, ws0, opt (Grp 2 units_k9),
          words_lazy (Some 3), ws1, Lit ''adjusted'', ws1, Lit ''net'', ws1, Lit ''income'', WordB]"

definition adjusted_net_income_after :: rx where
  "adjusted_net_income_after =
     cat [WordB, Lit ''adjusted'', ws1, Lit ''net'', ws1, Lit ''income'', words_lazy (Some 3), ws0,
          opt (alts [''was'', ''were'', ''is'', ''of'', ''at'', ''totaled'', ''amounted to'', ''came in at'',
                     ''reported at'', ''reached'', ''came to'']), ws0,
          opt qualifier, ws0, dollar_opt, ws0, Grp 1 num_grouped, ws0, Grp 2 units_k9, WordB]"

definition parse_adjusted_net_income :: "string \<Rightarrow> rat option" where
  "parse_adjusted_net_income text =
     (let t = clean_text text in
      case re_search True adjusted_net_income_before t of
        Some m \<Rightarrow> normalize_number (group_str m 1) (group m 2)
      | None \<Rightarrow>
          (case re_search True adjusted_net_income_after t of
             Some m \<Rightarrow> normalize_number (group_str m 1) (group m 2)
           | None \<Rightarrow> None))"

subsection \<open>Actual EPS\<close>

definition actual_eps_pattern :: rx where
  \<comment> \<open>\<^verbatim>\<open>actual\s+eps[:\s]*\$?\s*(-?[\d,.]+)\<close>\<close>
  "actual_eps_pattern =
     cat [Lit ''actual'', ws1, Lit ''eps'', star [CChr (CHR '':''), CSpace], dollar_opt, ws0,
          Grp 1 (Seq (opt (Lit ''-'')) num_cdd)]"

definition actual_eps_spoken_pattern :: rx where
  \<comment> \<open>\<^verbatim>\<open>actual\s+eps\s+(?:of|was|were|at|totaled)?\s*([a-z\s]+)\s*(cents?|dollars?)\<close>\<close>
  "actual_eps_spoken_pattern =
     cat [Lit ''actual'', ws1, Lit ''eps'', ws1,
          opt (alts [''of'', ''was'', ''were'', ''at'', ''totaled'']), ws0,
          Grp 1 (plus [CRange (CHR ''a'') (CHR ''z''), CSpace]), ws0,
          Grp 2 (Alt (Seq (Lit ''cent'') (opt (Lit ''s''))) (Seq (Lit ''dollar'') (opt (Lit ''s''))))]"

definition has_loss_marker :: "string \<Rightarrow> bool" where
  \<comment> \<open>\<^verbatim>\<open>re.search(r"\b(loss|negative|deficit)\b", t, re.IGNORECASE)\<close>\<close>
  "has_loss_marker t = (re_search True loss_marker t \<noteq> None)"

definition parse_actual_eps :: "string \<Rightarrow> rat option" where
  "parse_actual_eps text =
     (let t = clean_text text in
      case re_search True actual_eps_pattern t of
        Some m \<Rightarrow>
          (case py_float (remove_char (CHR '','') (group_str m 1)) of
             None \<Rightarrow> None
           | Some x \<Rightarrow>
               (let eps = \<bar>x\<bar>;
                    eps = (if has_loss_marker t then - eps else eps)
                in Some (py_round3 eps)))
      | None \<Rightarrow>
          (case re_search True actual_eps_spoken_pattern t of
             Some m \<Rightarrow>
               (case spoken_to_number (group_str m 1) of
                  Some num_val \<Rightarrow>
                    (let val = of_int num_val;
                         val = (if contains ''cent'' (lower (group_str m 2)) then val / 100 else val);
                         val = (if has_loss_marker t then - val else val)
                     in Some (py_round3 val))
                | None \<Rightarrow> None)
           | None \<Rightarrow> None))"

subsection \<open>The generic matcher and the metrics built on it\<close>

definition metric_pattern :: "string \<Rightarrow> rx" where
  \<comment> \<open>the escaped keyword, then \<^verbatim>\<open>(?:\s+\w+)*?\s*\<close>, a linking verb, a qualifier, the number and
      \<^verbatim>\<open>(?:\s*(unit))?\<close>\<close>
  "metric_pattern keyword =
     cat [Lit keyword, words_lazy None, ws0, opt verbs_std, ws0, opt qualifier, ws0,
          dollar_opt, ws0, Grp 1 num_cdd, opt (Seq ws0 (Grp 2 units_k4))]"

definition parse_metric :: "string \<Rightarrow> string \<Rightarrow> rat option" where
  "parse_metric text keyword =
     (let t = clean_text text in
      case re_search True (metric_pattern keyword) t of
        Some m \<Rightarrow> normalize_number (group_str m 1) (group m 2)
      | None \<Rightarrow> None)"

definition parse_consolidated_net_sales :: "string \<Rightarrow> rat option" where
  "parse_consolidated_net_sales text = parse_metric text ''consolidated net sales''"

definition parse_consolidated_operating_income :: "string \<Rightarrow> rat option" where
  "parse_consolidated_operating_income text = parse_metric text ''consolidated operating income''"

definition parse_marketplace_gov :: "string \<Rightarrow> rat option" where
  "parse_marketplace_gov text = parse_metric text ''marketplace gov''"

definition parse_total_orders :: "string \<Rightarrow> rat option" where
  "parse_total_orders text = parse_metric text ''total orders''"

definition parse_gaap_net_income :: "string \<Rightarrow> rat option" where
  "parse_gaap_net_income text = parse_metric text ''gaap net income''"

subsection \<open>Adjusted EBITDA\<close>

definition adjusted_ebitda_after :: rx where
  "adjusted_ebitda_after =
     cat [Lit ''adjusted'', ws1, Lit ''ebitda'', words_lazy (Some 3), ws0,
          opt verbs_came_to, ws0, opt qualifier, ws0,
          dollar_opt, ws0, Grp 1 num_cd, ws0, opt (Grp 2 units_k4)]"

definition adjusted_ebitda_before :: rx where
  "adjusted_ebitda_before =
     cat [dollar_opt, ws0, Grp 1 num_cd, ws0, opt (Grp 2 units_k4), ws1,
          Lit ''adjusted'', ws1, Lit ''ebitda'']"

definition parse_adjusted_ebitda :: "string \<Rightarrow> rat option" where
  "parse_adjusted_ebitda text =
     (let t = clean_text text in
      case re_search True adjusted_ebitda_after t of
        Some m \<Rightarrow> normalize_number (remove_char (CHR '','') (group_str m 1)) (group m 2)
      | None \<Rightarrow>
          (case re_search True adjusted_ebitda_before t of
             Some m \<Rightarrow> normalize_number (remove_char (CHR '','') (group_str m 1)) (group m 2)
           | None \<Rightarrow> None))"

subsection \<open>Liquidity, cash balance, credit facility\<close>

definition available_liquidity_before :: rx where
  "available_liquidity_before =
     cat [dollar_opt, ws0, Grp 1 num_cdd, ws0, opt (Grp 2 units_k4), ws1,
          alts [''in'', ''of'', ''was''], ws1, Lit ''available'', ws1, Lit ''liquidity'']"

definition parse_available_liquidity :: "string \<Rightarrow> rat option" where
  "parse_available_liquidity text =
     (case parse_metric text ''available liquidity'' of
        Some val \<Rightarrow> Some val
      | None \<Rightarrow>
          (let t = clean_text text in
           case re_search True available_liquidity_before t of
             Some m \<Rightarrow> normalize_number (group_str m 1) (group m 2)
           | None \<Rightarrow> None))"

definition net_cash_balance_pattern :: rx where
  "net_cash_balance_pattern =
     cat [Lit ''net cash balance'', ws1, opt (alts [''at'', ''of'', ''was'']), ws0,
          dollar_opt, ws0, Grp 1 num_cdd, ws0, opt (Grp 2 units_k4)]"

definition parse_net_cash_balance :: "string \<Rightarrow> rat option" where
  "parse_net_cash_balance text =
     (let t = clean_text text in
      case re_search True net_cash_balance_pattern t of
        Some m \<Rightarrow> normalize_number (group_str m 1) (group m 2)
      | None \<Rightarrow> None)"

definition credit_facility_pattern :: rx where
  "credit_facility_pattern =
     cat [dollar_opt, ws0, Grp 1 num_cdd, ws0, opt (Grp 2 units_k9), ws1, Lit ''credit facility'']"

definition parse_credit_facility :: "string \<Rightarrow> rat option" where
  "parse_credit_facility text =
     (let t = clean_text text in
      case re_search True credit_facility_pattern t of
        Some m \<Rightarrow> normalize_number (group_str m 1) (group m 2)
      | None \<Rightarrow> None)"

definition verbs_stood_at :: rx where
  "verbs_stood_at = alts [''was'', ''were'', ''of'', ''at'', ''totaled'', ''amounted to'', ''reported at'',
     ''came in at'', ''reached'', ''stood at'']"

definition verbs_stood_reached :: rx where
  "verbs_stood_reached = alts [''was'', ''were'', ''of'', ''at'', ''totaled'', ''amounted to'', ''reported at'',
     ''came in at'', ''stood at'', ''reached'']"

definition liquidity_total :: rx where
  "liquidity_total =
     cat [WordB, Lit ''total'', ws1, Lit ''liquidity'', words_lazy (Some 3), ws0,
          opt verbs_stood_at, ws0, dollar_opt, ws0, Grp 1 num_cdd, ws0, Grp 2 units_k9, WordB]"

definition liquidity_before :: rx where
  "liquidity_before =
     cat [dollar_opt, ws0, Grp 1 num_cdd, ws0, Grp 2 units_k9, ws1,
          opt (alts [''in'', ''of'', ''at'', ''was'', ''for'', ''representing'']), ws0, Lit ''liquidity'']"

definition liquidity_after :: rx where
  "liquidity_after =
     cat [WordB, Lit ''liquidity'', words_lazy (Some 3), ws0,
          opt verbs_stood_reached, ws0, dollar_opt, ws0, Grp 1 num_cdd, ws0, Grp 2 units_k9, WordB]"

definition parse_liquidity :: "string \<Rightarrow> rat option" where
  "parse_liquidity text =
     (let t = clean_text text in
      case re_search True liquidity_total t of
        Some m \<Rightarrow> normalize_number (group_str m 1) (group m 2)
      | None \<Rightarrow>
          (case re_search True liquidity_before t of
             Some m \<Rightarrow> normalize_number (group_str m 1) (group m 2)
           | None \<Rightarrow>
               (case re_search True liquidity_after t of
                  Some m \<Rightarrow> normalize_number (group_str m 1) (group m 2)
                | None \<Rightarrow> None)))"

definition total_available_liquidity_before :: rx where
  "total_available_liquidity_before =
     cat [dollar_opt, ws0, Grp 1 num_cdd, ws0, opt (Grp 2 units_k4), ws1, Lit ''of'', ws1,
          Lit ''total'', ws1, Lit ''available'', ws1, Lit ''liquidity'']"

definition total_available_liquidity_after :: rx where
  "total_available_liquidity_after =
     cat [Lit ''total'', ws1, Lit ''available'', ws1, Lit ''liquidity'', ws0,
          opt verbs_stood_reached, ws0, dollar_opt, ws0, Grp 1 num_cdd, ws0, opt (Grp 2 units_k4)]"

definition parse_total_available_liquidity :: "string \<Rightarrow> rat option" where
  "parse_total_available_liquidity text =
     (let t = clean_text text in
      case re_search True total_available_liquidity_before t of
        Some m \<Rightarrow> normalize_number (group_str m 1) (group m 2)
      | None \<Rightarrow>
          (case re_search True total_available_liquidity_after t of
             Some m \<Rightarrow> normalize_number (group_str m 1) (group m 2)
           | None \<Rightarrow> parse_available_liquidity text))"

subsection \<open>Share buybacks and dividends\<close>

definition payout_words :: rx where
  "payout_words = alts [''share buybacks'', ''share repurchases'', ''dividends'']"

definition payout_gap :: rx where
  \<comment> \<open>\<^verbatim>\<open>(?:\s*(?:of|in|towards|for|used for|was|were|deployed towards)?\s*(?:\w+\s*){0,6})\<close>\<close>
  "payout_gap =
     cat [ws0, opt (alts [''of'', ''in'', ''towards'', ''for'', ''used for'', ''was'', ''were'',
                          ''deployed towards'']), ws0,
          Rep (Seq (plus [CWord]) ws0) 0 (Some 6) True]"

definition buybacks_pattern :: rx where
  "buybacks_pattern =
     cat [opt (alts [''nearly'', ''approximately'', ''~'', ''about'', ''around'', ''over'']), ws0,
          dollar_opt, ws0, Grp 1 num_cd, opt (Seq ws0 (Grp 2 units_k4)),
          payout_gap, Grp 3 payout_words]"

definition buybacks_pattern_rev :: rx where
  "buybacks_pattern_rev =
     cat [Grp 1 payout_words, payout_gap,
          dollar_opt, ws0, Grp 2 num_cd, opt (Seq ws0 (Grp 3 units_k4))]"

definition parse_share_buybacks_and_dividends :: "string \<Rightarrow> rat option" where
  "parse_share_buybacks_and_dividends text =
     (let t = clean_text text in
      case re_search True buybacks_pattern t of
        Some m \<Rightarrow> normalize_number (group_str m 1) (group m 2)
      | None \<Rightarrow>
          (case re_search True buybacks_pattern_rev t of
             Some m \<Rightarrow> normalize_number (group_str m 2) (group m 3)
           | None \<Rightarrow> None))"

subsection \<open>Percentages and per-share figures\<close>

datatype py_error = ValueError

definition combined_rate_ar6_pattern :: rx where
  "combined_rate_ar6_pattern =
     cat [Lit ''preliminary combined rate for AR6'', ws0, opt (alts [''is'', ''of'', ''was'']), ws0,
          Grp 1 num_cdd, ws0, Lit ''%'']"

definition parse_combined_rate_ar6 :: "string \<Rightarrow> rat option" where
  "parse_combined_rate_ar6 text =
     (let t = clean_text text in
      case re_search True combined_rate_ar6_pattern t of
        Some m \<Rightarrow> py_float (remove_char (CHR '','') (group_str m 1))
      | None \<Rightarrow> None)"

definition gaap_diluted_eps_pattern :: rx where
  \<comment> \<open>\<^verbatim>\<open>gaap diluted eps.*?\$?\s*([\d,\.-]+)\<close>\<close>
  "gaap_diluted_eps_pattern =
     cat [Lit ''gaap diluted eps'', Rep Dot 0 None False, dollar_opt, ws0,
          Grp 1 (plus [CDigit, CChr (CHR '',''), CChr (CHR ''.''), CChr (CHR ''-'')])]"

definition parse_gaap_diluted_eps :: "string \<Rightarrow> rat option" where
  "parse_gaap_diluted_eps text =
     (let t = clean_text text in
      case re_search True gaap_diluted_eps_pattern t of
        Some m \<Rightarrow> py_float (remove_char (CHR '','') (group_str m 1))
      | None \<Rightarrow> None)"

definition net_revenue_margin_pattern :: rx where
  \<comment> \<open>\<^verbatim>\<open>net revenue margin.*?([\d,.]+)\s*%\<close>\<close>
  "net_revenue_margin_pattern =
     cat [Lit ''net revenue margin'', Rep Dot 0 None False, Grp 1 num_cdd, ws0, Lit ''%'']"

definition parse_net_revenue_margin :: "string \<Rightarrow> py_error + rat option" where
  \<comment> \<open>the conversion is not guarded in the source: a captured text that is no float raises\<close>
  "parse_net_revenue_margin text =
     (let t = clean_text text in
      case re_search True net_revenue_margin_pattern t of
        Some m \<Rightarrow>
          (case py_float (remove_char (CHR '','') (group_str m 1)) of
             Some x \<Rightarrow> Inr (Some x)
           | None \<Rightarrow> Inl ValueError)
      | None \<Rightarrow> Inr None)"

fun find_suffix :: "string \<Rightarrow> string \<Rightarrow> string option" where
  \<comment> \<open>the text from the first occurrence of \<open>sub\<close> on (\<^verbatim>\<open>t[t.find(sub):]\<close>), if there is one\<close>
  "find_suffix sub [] = (if sub = [] then Some [] else None)"
| "find_suffix sub (c # cs) = (if starts_with sub (c # cs) then Some (c # cs) else find_suffix sub cs)"

definition percent_pattern :: rx where
  \<comment> \<open>\<^verbatim>\<open>([\d,.]+)\s*%\<close>\<close>
  "percent_pattern = cat [Grp 1 num_cdd, ws0, Lit ''%'']"

definition parse_net_income_margin :: "string \<Rightarrow> rat option" where
  "parse_net_income_margin text =
     (let t = lower (clean_text text) in
      case find_suffix ''net income margin'' t of
        None \<Rightarrow> None
      | Some from_keyword \<Rightarrow>
          (let snippet = take 200 from_keyword in
           case re_search False percent_pattern snippet of
             Some m \<Rightarrow> py_float (remove_char (CHR '','') (group_str m 1))
           | None \<Rightarrow> None))"

subsection \<open>Sentence-wise matchers\<close>

definition orders_pattern :: rx where
  \<comment> \<open>\<^verbatim>\<open>orders\s+(?:of|were|was|totaled|amounted to)?\s*\$?([\d,.]+)\<close>\<close>
  "orders_pattern =
     cat [Lit ''orders'', ws1, opt (alts [''of'', ''were'', ''was'', ''totaled'', ''amounted to'']), ws0,
          dollar_opt, Grp 1 num_cdd]"

fun orders_loop :: "string list \<Rightarrow> rat option" where
  "orders_loop [] = None"
| "orders_loop (s # ss) =
     (if contains ''orders'' (lower s) then
        (case re_search True orders_pattern s of
           Some m \<Rightarrow> normalize_number (group_str m 1) None
         | None \<Rightarrow> orders_loop ss)
      else orders_loop ss)"

definition parse_orders :: "(string \<Rightarrow> string list) \<Rightarrow> string \<Rightarrow> rat option" where
  "parse_orders sents text = orders_loop (sents (clean_text text))"

definition cash_flow_pattern :: rx where
  \<comment> \<open>\<^verbatim>\<open>(?:generated|was|were|of|totaled|amounted to)\s*\$?([\d,.]+)\<close>\<close>
  "cash_flow_pattern =
     cat [alts [''generated'', ''was'', ''were'', ''of'', ''totaled'', ''amounted to''], ws0,
          dollar_opt, Grp 1 num_cdd]"

fun cash_flow_loop :: "string list \<Rightarrow> rat option" where
  "cash_flow_loop [] = None"
| "cash_flow_loop (sent # ss) =
     (let s = lower sent in
      if contains ''free cash flow'' s then cash_flow_loop ss
      else if contains ''cash flow'' s \<or> contains ''cash from operations'' s then
        (case re_search True cash_flow_pattern sent of
           Some m \<Rightarrow> normalize_number (group_str m 1) None
         | None \<Rightarrow> cash_flow_loop ss)
      else cash_flow_loop ss)"

definition parse_cash_flow :: "(string \<Rightarrow> string list) \<Rightarrow> string \<Rightarrow> rat option" where
  "parse_cash_flow sents text = cash_flow_loop (sents (clean_text text))"

definition adjusted_eps_pattern :: rx where
  \<comment> \<open>\<^verbatim>\<open>\b(?:was|were|of|at|totaled|amounted to)\s*\$?(-?[\d]+\.[\d]+)\<close>\<close>
  "adjusted_eps_pattern =
     cat [WordB, alts [''was'', ''were'', ''of'', ''at'', ''totaled'', ''amounted to''], ws0, dollar_opt,
          Grp 1 (cat [opt (Lit ''-''), plus [CDigit], Lit ''.'', plus [CDigit]])]"

fun adjusted_eps_loop :: "string list \<Rightarrow> rat option" where
  "adjusted_eps_loop [] = None"
| "adjusted_eps_loop (s # ss) =
     (if contains ''adjusted'' (lower s) \<and> contains ''eps'' (lower s) then
        (case re_search True adjusted_eps_pattern s of
           Some m \<Rightarrow> py_float (group_str m 1)
         | None \<Rightarrow> adjusted_eps_loop ss)
      else adjusted_eps_loop ss)"

definition parse_adjusted_eps :: "(string \<Rightarrow> string list) \<Rightarrow> string \<Rightarrow> rat option" where
  "parse_adjusted_eps sents text = adjusted_eps_loop (sents (clean_text text))"

subsection \<open>Further keyword matchers\<close>

definition lumber_pattern :: rx where
  \<comment> \<open>\<^verbatim>\<open>lumber segment.*?adjusted ebitda\s*(?:of|was)?\s*\$?\s*([\d,]+(?:\.\d+)?)\s*(unit)?\<close>\<close>
  "lumber_pattern =
     cat [Lit ''lumber segment'', Rep Dot 0 None False, Lit ''adjusted ebitda'', ws0,
          opt (alts [''of'', ''was'']), ws0, dollar_opt, ws0, Grp 1 num_cd, ws0, opt (Grp 2 units_k4)]"

definition parse_lumber_segment_adjusted_ebitda :: "string \<Rightarrow> rat option" where
  "parse_lumber_segment_adjusted_ebitda text =
     (let t = clean_text text in
      case re_search True lumber_pattern t of
        Some m \<Rightarrow> normalize_number (group_str m 1) (group m 2)
      | None \<Rightarrow> None)"

definition total_net_sales_dollar :: rx where
  "total_net_sales_dollar =
     cat [Lit ''total'', ws1, Lit ''net'', ws1, Lit ''sales'', words_lazy (Some 5), ws0,
          opt verbs_std, ws0, opt qualifier, ws0,
          Lit ''$'', ws0, Grp 1 num_cd, ws0, opt (Grp 2 units_k4)]"

definition total_net_sales_unit :: rx where
  "total_net_sales_unit =
     cat [Lit ''total'', ws1, Lit ''net'', ws1, Lit ''sales'', words_lazy (Some 5), ws0,
          opt verbs_std, ws0, opt qualifier, ws0,
          Grp 1 num_cdd, ws0, Grp 2 units_k4]"

definition parse_total_net_sales :: "string \<Rightarrow> rat option" where
  "parse_total_net_sales text =
     (let t = clean_text text in
      case re_search True total_net_sales_dollar t of
        Some m \<Rightarrow> normalize_number (group_str m 1) (group m 2)
      | None \<Rightarrow>
          (case re_search True total_net_sales_unit t of
             Some m \<Rightarrow> normalize_number (group_str m 1) (group m 2)
           | None \<Rightarrow> None))"

definition free_cash_flow_pattern :: rx where
  \<comment> \<open>the number is \<^verbatim>\<open>[\d]{1,3}(?:,\d{3})*(?:\.\d+)?|\d+(?:\.\d+)?\<close>\<close>
  "free_cash_flow_pattern =
     cat [Lit ''free'', ws1, Lit ''cash'', ws1, Lit ''flow'', ws0,
          opt (alts [''of'', ''was'', ''were'']), ws0, dollar_opt, ws0,
          Grp 1 (Alt (cat [Rep (OneOf [CDigit]) 1 (Some 3) True,
                           Rep (Seq (Lit '','') (Rep (OneOf [CDigit]) 3 (Some 3) True)) 0 None True,
                           opt (Seq (Lit ''.'') (plus [CDigit]))])
                     (Seq (plus [CDigit]) (opt (Seq (Lit ''.'') (plus [CDigit]))))),
          ws0, opt (Grp 2 units_k4)]"

definition parse_free_cash_flow :: "string \<Rightarrow> rat option" where
  \<comment> \<open>works on the text as it is, not on the normalized text\<close>
  "parse_free_cash_flow text =
     (case re_search True free_cash_flow_pattern text of
        Some m \<Rightarrow> normalize_number (group_str m 1) (group m 2)
      | None \<Rightarrow> None)"

definition interest_expense_after :: rx where
  "interest_expense_after =
     cat [Lit ''interest'', ws1, Lit ''expense'', words_lazy (Some 5), ws0,
          opt (alts [''was'', ''were'', ''is'', ''of'', ''at'', ''to'', ''for'', ''totaled'', ''amounted to'',
                     ''came in at'', ''reported at'', ''reached'']), ws0,
          opt qualifier, ws0, dollar_opt, ws0, Grp 1 num_cdd, ws0, opt (Grp 2 units_k4)]"

definition interest_expense_before :: rx where
  "interest_expense_before =
     cat [dollar_opt, ws0, Grp 1 num_cdd, ws0, opt (Grp 2 units_k4), words_lazy (Some 5), ws1,
          Lit ''interest'', ws1, Lit ''expense'']"

definition parse_interest_expense :: "string \<Rightarrow> rat option" where
  "parse_interest_expense text =
     (let t = clean_text text in
      case re_search True interest_expense_after t of
        Some m \<Rightarrow> normalize_number (group_str m 1) (group m 2)
      | None \<Rightarrow>
          (case re_search True interest_expense_before t of
             Some m \<Rightarrow> normalize_number (group_str m 1) (group m 2)
           | None \<Rightarrow> None))"

definition num_unit :: rx where
  \<comment> \<open>\<^verbatim>\<open>\$?[\d,.]+(?:\.\d+)?(?:\s*(?:billion|million|thousand|bn|mn|mm|m|b|k))?\<close>\<close>
  "num_unit =
     cat [dollar_opt, num_cdd, opt (Seq (Lit ''.'') (plus [CDigit])), opt (Seq ws0 units_k9)]"

definition gaap_operating_income_before :: rx where
  "gaap_operating_income_before =
     cat [Grp 1 num_unit, ws0, opt (alts [''of'', ''in'', ''for'', ''quarterly'', ''this quarter'']), ws0,
          Lit ''gaap operating income'']"

definition gaap_operating_income_after :: rx where
  "gaap_operating_income_after =
     cat [Lit ''gaap operating income'', ws0, opt verbs_std, ws0, Grp 1 num_unit]"

definition split_num_unit :: "string \<Rightarrow> string option \<times> string option" where
  \<comment> \<open>\<^verbatim>\<open>re.match(r"\$?([\d,.]+)", num_unit)\<close> and the case-insensitive search for a unit word\<close>
  "split_num_unit nu =
     (map_option (\<lambda>m. group_str m 1) (re_match False (Seq dollar_opt (Grp 1 num_cdd)) nu),
      map_option (\<lambda>m. group_str m 1) (re_search True (Grp 1 units_k9) nu))"

definition num_unit_value :: "string \<Rightarrow> rat option option" where
  \<comment> \<open>\<open>None\<close>: \<^verbatim>\<open>number\<close> is empty or absent and the matcher goes on; \<open>Some v\<close>: it returns \<open>v\<close>\<close>
  "num_unit_value nu =
     (case split_num_unit nu of
        (Some number, unit) \<Rightarrow> if number \<noteq> [] then Some (normalize_number number unit) else None
      | (None, unit) \<Rightarrow> None)"

definition gaap_operating_income_fallback :: "string \<Rightarrow> rat option" where
  "gaap_operating_income_fallback t =
     (case re_search True gaap_operating_income_after t of
        Some m \<Rightarrow> (case num_unit_value (group_str m 1) of Some v \<Rightarrow> v | None \<Rightarrow> None)
      | None \<Rightarrow> None)"

definition parse_gaap_operating_income :: "string \<Rightarrow> rat option" where
  "parse_gaap_operating_income text =
     (let t = clean_text text in
      case re_search True gaap_operating_income_before t of
        Some m \<Rightarrow>
          (case num_unit_value (group_str m 1) of
             Some v \<Rightarrow> v
           | None \<Rightarrow> gaap_operating_income_fallback t)
      | None \<Rightarrow> gaap_operating_income_fallback t)"

section \<open>Sentence Classifier\<close>

definition select_sentences :: "(string \<Rightarrow> string list) \<Rightarrow> (string \<Rightarrow> bool) \<Rightarrow> string \<Rightarrow> string list" where
  \<comment> \<open>\<^verbatim>\<open>[s.text.strip() for s in nlp(clean_text(text)).sents if p(s.text)]\<close>\<close>
  "select_sentences sents p text = map strip (filter p (sents (clean_text text)))"

definition contains_any :: "string list \<Rightarrow> string \<Rightarrow> bool" where
  "contains_any phrases s = list_ex (\<lambda>p. contains p (lower s)) phrases"

definition extract_demand_sentences :: "(string \<Rightarrow> string list) \<Rightarrow> string \<Rightarrow> string list" where
  "extract_demand_sentences sents = select_sentences sents (\<lambda>s. contains ''demand'' (lower s))"

definition extract_forward_looking_statements :: "(string \<Rightarrow> string list) \<Rightarrow> string \<Rightarrow> string list" where
  "extract_forward_looking_statements sents =
     select_sentences sents
       (contains_any [''we expect'', ''we anticipate'', ''looking ahead'', ''we forecast'', ''we believe'',
                      ''we see'', ''we project''])"

definition extract_prior_year_comparisons :: "(string \<Rightarrow> string list) \<Rightarrow> string \<Rightarrow> string list" where
  "extract_prior_year_comparisons sents =
     select_sentences sents (contains_any [''prior year'', ''last year'', ''last year's''])"

definition year_over_year_pattern :: rx where
  \<comment> \<open>\<^verbatim>\<open>year[-\s]?over[-\s]?year\<close>\<close>
  "year_over_year_pattern =
     cat [Lit ''year'', opt (OneOf [CChr (CHR ''-''), CSpace]), Lit ''over'',
          opt (OneOf [CChr (CHR ''-''), CSpace]), Lit ''year'']"

definition extract_year_over_year_sentences :: "(string \<Rightarrow> string list) \<Rightarrow> string \<Rightarrow> string list" where
  "extract_year_over_year_sentences sents =
     select_sentences sents (\<lambda>s. re_search True year_over_year_pattern s \<noteq> None)"

definition extract_guidance_sentences :: "(string \<Rightarrow> string list) \<Rightarrow> string \<Rightarrow> string list" where
  "extract_guidance_sentences sents = select_sentences sents (\<lambda>s. contains ''guidance'' (lower s))"

definition extract_compared_to_sentences :: "(string \<Rightarrow> string list) \<Rightarrow> string \<Rightarrow> string list" where
  "extract_compared_to_sentences sents = select_sentences sents (\<lambda>s. contains ''compared to'' (lower s))"

definition raising_pattern :: rx where
  \<comment> \<open>\<^verbatim>\<open>\brais(?:e|ed|ing)\b\<close>\<close>
  "raising_pattern = cat [WordB, Lit ''rais'', alts [''e'', ''ed'', ''ing''], WordB]"

definition extract_raising_sentences :: "(string \<Rightarrow> string list) \<Rightarrow> string \<Rightarrow> string list" where
  "extract_raising_sentences sents =
     select_sentences sents (\<lambda>s. re_search True raising_pattern s \<noteq> None)"

definition refinance_pattern :: rx where
  \<comment> \<open>\<^verbatim>\<open>\brefinanc(?:e|ed)\b\<close>\<close>
  "refinance_pattern = cat [WordB, Lit ''refinanc'', alts [''e'', ''ed''], WordB]"

definition extract_refinance_sentences :: "(string \<Rightarrow> string list) \<Rightarrow> string \<Rightarrow> string list" where
  "extract_refinance_sentences sents =
     select_sentences sents (\<lambda>s. re_search True refinance_pattern s \<noteq> None)"

definition extract_production_sentences :: "(string \<Rightarrow> string list) \<Rightarrow> string \<Rightarrow> string list" where
  "extract_production_sentences sents = select_sentences sents (\<lambda>s. contains ''production'' (lower s))"

definition extract_outlook_sentences :: "(string \<Rightarrow> string list) \<Rightarrow> string \<Rightarrow> string list" where
  "extract_outlook_sentences sents =
     select_sentences sents (contains_any [''outlook'', ''expectation'', ''expectations'', ''forecast''])"

definition challenge_pattern :: rx where
  \<comment> \<open>\<^verbatim>\<open>\bchalleng(?:e|ed|ing|es)\b\<close>\<close>
  "challenge_pattern = cat [WordB, Lit ''challeng'', alts [''e'', ''ed'', ''ing'', ''es''], WordB]"

definition extract_challenge_sentences :: "(string \<Rightarrow> string list) \<Rightarrow> string \<Rightarrow> string list" where
  "extract_challenge_sentences sents =
     select_sentences sents (\<lambda>s. re_search True challenge_pattern s \<noteq> None)"

section \<open>Extraction Orchestrator\<close>

datatype pyval = PyNone | PyFloat rat | PyList "string list"

definition of_opt :: "rat option \<Rightarrow> pyval" where
  "of_opt v = (case v of None \<Rightarrow> PyNone | Some x \<Rightarrow> PyFloat x)"

type_synonym pydict = "(string \<times> pyval) list"

fun dict_set :: "pydict \<Rightarrow> string \<Rightarrow> pyval \<Rightarrow> pydict" where
  \<comment> \<open>\<^verbatim>\<open>d[k] = v\<close> on a dictionary in insertion order\<close>
  "dict_set [] k v = [(k, v)]"
| "dict_set ((k', v') # d) k v = (if k' = k then (k, v) # d else (k', v') # dict_set d k v)"

definition dict_set_all :: "pydict \<Rightarrow> (string \<times> pyval) list \<Rightarrow> pydict" where
  \<comment> \<open>a sequence of assignments\<close>
  "dict_set_all d kvs = foldl (\<lambda>d (k, v). dict_set d k v) d kvs"

definition remove_null_metrics :: "pydict \<Rightarrow> pydict" where
  "remove_null_metrics metrics_dict = filter (\<lambda>(k, v). v \<noteq> PyNone) metrics_dict"

definition metric_assignments :: "(string \<Rightarrow> string list) \<Rightarrow> string \<Rightarrow> rat option \<Rightarrow> (string \<times> pyval) list" where
  \<comment> \<open>the assignments to \<^verbatim>\<open>results\<close> before the pruning; \<open>nrm\<close> is the net revenue margin\<close>
  "metric_assignments sents text nrm =
     [(''revenue'', of_opt (parse_revenue text)),
      (''consolidated_net_sales'', of_opt (parse_consolidated_net_sales text)),
      (''consolidated_operating_income'', of_opt (parse_consolidated_operating_income text)),
      (''orders'', of_opt (parse_orders sents text)),
      (''total_orders'', of_opt (parse_total_orders text)),
      (''marketplace_gov'', of_opt (parse_marketplace_gov text)),
      (''adjusted_ebitda'', of_opt (parse_adjusted_ebitda text)),
      (''lumber_segment_adjusted_ebitda'', of_opt (parse_lumber_segment_adjusted_ebitda text)),
      (''available_liquidity'', of_opt (parse_available_liquidity text)),
      (''liquidity'', of_opt (parse_liquidity text)),
      (''net_cash_balance'', of_opt (parse_net_cash_balance text)),
      (''credit_facility'', of_opt (parse_credit_facility text)),
      (''cash_flow'', of_opt (parse_cash_flow sents text)),
      (''net_revenue_margin'', of_opt nrm),
      (''gaap_net_income'', of_opt (parse_gaap_net_income text)),
      (''net_income'', of_opt (parse_net_income sents text)),
      (''gaap_diluted_eps'', of_opt (parse_gaap_diluted_eps text)),
      (''adjusted_eps'', of_opt (parse_adjusted_eps sents text)),
      (''actual_eps'', of_opt (parse_actual_eps text)),
      (''share_buybacks_and_dividends'', of_opt (parse_share_buybacks_and_dividends text)),
      (''combined_rate_ar6'', of_opt (parse_combined_rate_ar6 text)),
      (''total_net_sales'', of_opt (parse_total_net_sales text)),
      (''free_cash_flow'', of_opt (parse_free_cash_flow text)),
      (''interest_expense'', of_opt (parse_interest_expense text)),
      (''adjusted_net_income'', of_opt (parse_adjusted_net_income text)),
      (''gaap_operating_income'', of_opt (parse_gaap_operating_income text)),
      (''total_available_liquidity'', of_opt (parse_total_available_liquidity text))]"

definition narrative_assignments :: "(string \<Rightarrow> string list) \<Rightarrow> string \<Rightarrow> (string \<times> pyval) list" where
  "narrative_assignments sents text =
     [(''guidance'', PyList (extract_guidance_sentences sents text)),
      (''forward_look'', PyList (extract_forward_looking_statements sents text)),
      (''prior_year_mentions'', PyList (extract_prior_year_comparisons sents text)),
      (''year_over_year_mentions'', PyList (extract_year_over_year_sentences sents text)),
      (''compared_to_mentions'', PyList (extract_compared_to_sentences sents text)),
      (''raising_mentions'', PyList (extract_raising_sentences sents text)),
      (''refinance_mentions'', PyList (extract_refinance_sentences sents text)),
      (''production'', PyList (extract_production_sentences sents text)),
      (''outlook'', PyList (extract_outlook_sentences sents text)),
      (''demand_mentions'', PyList (extract_demand_sentences sents text)),
      (''challenge_mentions'', PyList (extract_challenge_sentences sents text))]"

definition extract_metrics :: "(string \<Rightarrow> string list) \<Rightarrow> string \<Rightarrow> py_error + pydict" where
  \<comment> \<open>the only call that can raise is the one of \<open>parse_net_revenue_margin\<close>\<close>
  "extract_metrics sents text =
     (case parse_net_revenue_margin text of
        Inl e \<Rightarrow> Inl e
      | Inr nrm \<Rightarrow>
          (let results = dict_set_all [] (metric_assignments sents text nrm);
               results = remove_null_metrics results
           in Inr (dict_set_all results (narrative_assignments sents text))))"

section \<open>Document Identifier\<close>

fun split_on_acc :: "char \<Rightarrow> string \<Rightarrow> string \<Rightarrow> string list" where
  "split_on_acc sep cur [] = [cur]"
| "split_on_acc sep cur (c # cs) =
     (if c = sep then cur # split_on_acc sep [] cs else split_on_acc sep (cur @ [c]) cs)"

definition split_on :: "char \<Rightarrow> string \<Rightarrow> string list" where
  \<comment> \<open>\<^verbatim>\<open>s.split(sep)\<close> for a one-character separator\<close>
  "split_on sep s = split_on_acc sep [] s"

fun join :: "string \<Rightarrow> string list \<Rightarrow> string" where
  "join sep [] = []"
| "join sep [x] = x"
| "join sep (x # xs) = x @ sep @ join sep xs"

definition ticker_pattern :: rx where
  \<comment> \<open>\<^verbatim>\<open>\(([A-Z]+):([A-Z]+)\)\<close>\<close>
  "ticker_pattern =
     cat [Lit ''('', Grp 1 (plus [CRange (CHR ''A'') (CHR ''Z'')]), Lit '':'',
          Grp 2 (plus [CRange (CHR ''A'') (CHR ''Z'')]), Lit '')'']"

definition quarter_year_pattern :: rx where
  \<comment> \<open>\<^verbatim>\<open>\b(Q[1-4])\s+(\d{4})\b\<close>\<close>
  "quarter_year_pattern =
     cat [WordB, Grp 1 (Seq (Lit ''Q'') (OneOf [CRange (CHR ''1'') (CHR ''4'')])), ws1,
          Grp 2 (Rep (OneOf [CDigit]) 4 (Some 4) True), WordB]"

definition date_pattern :: rx where
  "date_pattern =
     cat [Grp 1 (alts [''January'', ''February'', ''March'', ''April'', ''May'', ''June'', ''July'',
                       ''August'', ''September'', ''October'', ''November'', ''December'']),
          ws1, Rep (OneOf [CDigit]) 1 (Some 2) True, Lit '','', ws1,
          Rep (OneOf [CDigit]) 4 (Some 4) True]"

type_synonym identity = "string option \<times> string option \<times> string option \<times> string option"

definition extract_ticker_quarter_year_date :: "string \<Rightarrow> identity" where
  "extract_ticker_quarter_year_date text =
     (let first_lines = join [CHR 0x0A] (take 3 (split_on (CHR 0x0A) text));
          ticker_match = re_search False ticker_pattern first_lines;
          quarter_year_match = re_search False quarter_year_pattern first_lines;
          date_match = re_search False date_pattern first_lines
      in (map_option (\<lambda>m. group_str m 2) ticker_match,
          map_option (\<lambda>m. group_str m 1) quarter_year_match,
          map_option (\<lambda>m. group_str m 2) quarter_year_match,
          map_option (\<lambda>m. group_str m 0) date_match))"

definition stem :: "string \<Rightarrow> string" where
  \<comment> \<open>\<^verbatim>\<open>Path(file_name).stem\<close> of a bare file name: the name without its last suffix; a dot
      at the start or at the end of the name starts no suffix\<close>
  "stem name =
     (if CHR ''.'' \<in> set name then
        (let i = length name - length (takeWhile (\<lambda>c. c \<noteq> CHR ''.'') (rev name)) - 1 in
         if 0 < i \<and> i < length name - 1 then take i name else name)
      else name)"

definition extract_from_filename :: "string \<Rightarrow> identity" where
  "extract_from_filename fname =
     (let name = stem fname;
          parts = split_on (CHR ''_'') name;
          tick = (if 0 < length parts then Some (upper (parts ! 0)) else None);
          quart = (if 1 < length parts then Some (parts ! 1) else None)
      in if 4 \<le> length parts \<and> re_match False (Rep (OneOf [CDigit]) 4 (Some 4) True) (last parts) \<noteq> None
         then (tick, quart, Some (last parts),
               Some (join '' '' (drop 2 (butlast parts)) @ '' '' @ last parts))
         else (tick, quart, None, None))"

definition falsy :: "string option \<Rightarrow> bool" where
  \<comment> \<open>\<^verbatim>\<open>not x\<close> for a value that is a string or \<^verbatim>\<open>None\<close>\<close>
  "falsy x = (case x of None \<Rightarrow> True | Some s \<Rightarrow> s = [])"

definition resolve_identity :: "string \<Rightarrow> string \<Rightarrow> identity" where
  \<comment> \<open>the header fields, replaced by the ones of the file name when one of them is missing\<close>
  "resolve_identity fname text =
     (case extract_ticker_quarter_year_date text of
        (tick, quart, yr, edate) \<Rightarrow>
          if falsy tick \<or> falsy quart \<or> falsy yr \<or> falsy edate
          then extract_from_filename fname else (tick, quart, yr, edate))"

record transcript_record =
  ticker :: "string option"
  quarter :: "string option"
  year :: "string option"
  earnings_date :: "string option"
  file_name :: string
  metrics :: pydict

definition parse_transcript_file :: "(string \<Rightarrow> string list) \<Rightarrow> string \<Rightarrow> string \<Rightarrow> py_error + transcript_record" where
  \<comment> \<open>\<open>fname\<close> is \<^verbatim>\<open>file_path.name\<close> and \<open>text\<close> the content read from the file\<close>
  "parse_transcript_file sents fname text =
     (case resolve_identity fname text of
        (tick, quart, yr, edate) \<Rightarrow>
          (case extract_metrics sents text of
             Inl e \<Rightarrow> Inl e
           | Inr m \<Rightarrow>
               Inr \<lparr>ticker = tick, quarter = quart, year = yr, earnings_date = edate,
                    file_name = fname, metrics = m\<rparr>))"

section \<open>Auxiliary notions for the proofs\<close>

text \<open>
  A text is single-spaced when each of its whitespace characters is a blank that is
  followed by no other whitespace, and trimmed when it neither starts nor ends with
  whitespace.
\<close>

fun single_spaced :: "string \<Rightarrow> bool" where
  "single_spaced [] = True"
| "single_spaced [c] = (is_space c \<longrightarrow> c = CHR '' '')"
| "single_spaced (a # b # r) = ((is_space a \<longrightarrow> a = CHR '' '' \<and> \<not> is_space b) \<and> single_spaced (b # r))"

definition trimmed :: "string \<Rightarrow> bool" where
  "trimmed s = (s \<noteq> [] \<longrightarrow> \<not> is_space (hd s) \<and> \<not> is_space (last s))"


text \<open>
  The Spoken-Number Decoder as the specification words it: a token is recognised when it
  is a number word below one hundred, the filler "oh" or "o", or a run of digits, and
  stands for the digits \<open>token_digits\<close> gives; the decoder consumes the longest prefix of
  recognised tokens and reads the concatenation of their digits as a decimal number.
\<close>

definition token_digits :: "string \<Rightarrow> string option" where
  "token_digits tok =
     (case map_of (filter (\<lambda>(w, n). n < 100) NUM_WORDS) tok of
        Some n \<Rightarrow> Some (str_nat n)
      | None \<Rightarrow>
          if tok = ''oh'' \<or> tok = ''o'' then Some ''0''
          else if all_digits tok then Some tok
          else None)"

definition decode_spoken :: "string \<Rightarrow> int option" where
  "decode_spoken text =
     (let consumed = takeWhile (\<lambda>tok. token_digits tok \<noteq> None) (split_ws (lower text)) in
      if consumed = [] then None
      else Some (int (nat_of_digits (concat (map (\<lambda>tok. the (token_digits tok)) consumed)))))"

text \<open>The keys of the result, in the order of their assignment.\<close>

definition metric_keys :: "string list" where
  "metric_keys = [''revenue'', ''consolidated_net_sales'', ''consolidated_operating_income'', ''orders'',
     ''total_orders'', ''marketplace_gov'', ''adjusted_ebitda'', ''lumber_segment_adjusted_ebitda'',
     ''available_liquidity'', ''liquidity'', ''net_cash_balance'', ''credit_facility'', ''cash_flow'',
     ''net_revenue_margin'', ''gaap_net_income'', ''net_income'', ''gaap_diluted_eps'', ''adjusted_eps'',
     ''actual_eps'', ''share_buybacks_and_dividends'', ''combined_rate_ar6'', ''total_net_sales'',
     ''free_cash_flow'', ''interest_expense'', ''adjusted_net_income'', ''gaap_operating_income'',
     ''total_available_liquidity'']"

definition narrative_keys :: "string list" where
  "narrative_keys = [''guidance'', ''forward_look'', ''prior_year_mentions'', ''year_over_year_mentions'',
     ''compared_to_mentions'', ''raising_mentions'', ''refinance_mentions'', ''production'', ''outlook'',
     ''demand_mentions'', ''challenge_mentions'']"

section \<open>Evaluation of the matcher on concrete texts\<close>

text \<open>
  The equations of \<open>rx_match\<close> and \<open>rep\<close> are restated for states in constructor form, so
  that the simplifier runs the matcher on a concrete text position by position and leaves
  the continuations alone; the congruence rules keep it from walking through the text
  and the pattern at every step.
\<close>

declare rx_match.simps [simp del] rep.simps [simp del]

lemma is_digit_Char:
  "is_digit (Char b0 b1 b2 b3 b4 b5 b6 b7) = (\<not> b7 \<and> \<not> b6 \<and> b5 \<and> b4 \<and> (\<not> b3 \<or> (\<not> b2 \<and> \<not> b1)))"
  by (cases b0; cases b1; cases b2; cases b3; cases b4; cases b5; cases b6; cases b7; simp add: is_digit_def)

lemma is_upper_Char:
  "is_upper (Char b0 b1 b2 b3 b4 b5 b6 b7) =
     (\<not> b7 \<and> b6 \<and> \<not> b5 \<and> (b0 \<or> b1 \<or> b2 \<or> b3 \<or> b4) \<and> (\<not> b4 \<or> \<not> b3 \<or> (\<not> b2 \<and> \<not> (b1 \<and> b0))))"
  by (cases b0; cases b1; cases b2; cases b3; cases b4; cases b5; cases b6; cases b7; simp add: is_upper_def)

lemma is_lower_Char:
  "is_lower (Char b0 b1 b2 b3 b4 b5 b6 b7) =
     (\<not> b7 \<and> b6 \<and> b5 \<and> (b0 \<or> b1 \<or> b2 \<or> b3 \<or> b4) \<and> (\<not> b4 \<or> \<not> b3 \<or> (\<not> b2 \<and> \<not> (b1 \<and> b0))))"
  by (cases b0; cases b1; cases b2; cases b3; cases b4; cases b5; cases b6; cases b7; simp add: is_lower_def)

lemma is_space_Char:
  "is_space (Char b0 b1 b2 b3 b4 b5 b6 b7) =
     (\<not> b7 \<and> \<not> b6 \<and>
      ((\<not> b5 \<and> \<not> b4 \<and> b3 \<and> ((\<not> b2 \<and> (b1 \<or> b0)) \<or> (b2 \<and> \<not> b1))) \<or>
       (\<not> b5 \<and> b4 \<and> b3 \<and> b2) \<or>
       (b5 \<and> \<not> b4 \<and> \<not> b3 \<and> \<not> b2 \<and> \<not> b1 \<and> \<not> b0)))"
  by (cases b0; cases b1; cases b2; cases b3; cases b4; cases b5; cases b6; cases b7; simp add: is_space_def)

lemma is_float_space_Char:
  "is_float_space (Char b0 b1 b2 b3 b4 b5 b6 b7) =
     (\<not> b7 \<and> \<not> b6 \<and>
      ((\<not> b5 \<and> \<not> b4 \<and> b3 \<and> ((\<not> b2 \<and> (b1 \<or> b0)) \<or> (b2 \<and> \<not> b1))) \<or>
       (b5 \<and> \<not> b4 \<and> \<not> b3 \<and> \<not> b2 \<and> \<not> b1 \<and> \<not> b0)))"
  by (cases b0; cases b1; cases b2; cases b3; cases b4; cases b5; cases b6; cases b7; simp add: is_float_space_def)

lemma digit_val_Char:
  "digit_val (Char b0 b1 b2 b3 True True False False) = of_bool b0 + 2 * of_bool b1 + 4 * of_bool b2 + 8 * of_bool b3"
  by (cases b0; cases b1; cases b2; cases b3; simp add: digit_val_def)

lemma lower_c_Char:
  "lower_c (Char b0 b1 b2 b3 b4 b5 b6 b7) =
     Char b0 b1 b2 b3 b4
       (b5 \<or> (\<not> b7 \<and> b6 \<and> (b0 \<or> b1 \<or> b2 \<or> b3 \<or> b4) \<and> (\<not> b4 \<or> \<not> b3 \<or> (\<not> b2 \<and> \<not> (b1 \<and> b0))))) b6 b7"
  by (auto simp: lower_c_def is_upper_Char)

lemma upper_c_Char:
  "upper_c (Char b0 b1 b2 b3 b4 b5 b6 b7) =
     Char b0 b1 b2 b3 b4
       (b5 \<and> \<not> (\<not> b7 \<and> b6 \<and> (b0 \<or> b1 \<or> b2 \<or> b3 \<or> b4) \<and> (\<not> b4 \<or> \<not> b3 \<or> (\<not> b2 \<and> \<not> (b1 \<and> b0))))) b6 b7"
  by (auto simp: upper_c_def is_lower_Char)



lemma MState_block: "MState sn rs g = MState sn rs g"
  by (rule refl)

lemma rx_match_state_cong: "st = st' \<Longrightarrow> rx_match ic r st k = rx_match ic r st' k"
  by simp

lemma rep_state_cong: "lo = lo' \<Longrightarrow> hi = hi' \<Longrightarrow> st = st' \<Longrightarrow> rep f g lo hi st k = rep f g lo' hi' st' k"
  by simp

lemma set_cap_cong: "st' = st'' \<Longrightarrow> set_cap n st st' = set_cap n st st''"
  by simp

lemma rx_scan_block: "rx_scan ic r sn s = rx_scan ic r sn s"
  by (rule refl)

lemma match_here_block: "match_here ic r sn s = match_here ic r sn s"
  by (rule refl)

lemma rx_findall_cong: "skip = skip' \<Longrightarrow> rx_findall ic r sn s skip = rx_findall ic r sn s skip'"
  by simp

lemmas rx_congs = MState_block rx_match_state_cong rep_state_cong set_cap_cong rx_scan_block
  match_here_block rx_findall_cong

lemma set_cap_MState:
  "set_cap n (MState sn rs g) (MState sn' rs' g') =
     MState sn' rs' ((n, rev (take (length sn' - length sn) sn')) # g')"
  by (simp add: set_cap_def)

lemma match_here_MState:
  "match_here ic r sn s = rx_match ic r (MState sn s []) (\<lambda>st'. Some (set_cap 0 (MState sn s []) st'))"
  by (simp add: match_here_def rx_match.simps)

lemma rx_unfold: "r = r' \<Longrightarrow> rx_match ic r (MState sn rs g) k = rx_match ic r' (MState sn rs g) k"
  by simp

lemma rx_match_cat:
  "rx_match ic (cat []) (MState sn rs g) k = k (MState sn rs g)"
  "rx_match ic (cat [r]) (MState sn rs g) k = rx_match ic r (MState sn rs g) k"
  "rx_match ic (cat (r # r' # ps)) (MState sn rs g) k =
     rx_match ic r (MState sn rs g) (\<lambda>st'. rx_match ic (cat (r' # ps)) st' k)"
  by (simp_all add: rx_match.simps)

lemma rx_match_alts:
  "rx_match ic (alts []) (MState sn rs g) k = None"
  "rx_match ic (alts [s]) (MState sn rs g) k = rx_match ic (Lit s) (MState sn rs g) k"
  "rx_match ic (alts (s # s' # ss)) (MState sn rs g) k =
     (case rx_match ic (Lit s) (MState sn rs g) k of Some y \<Rightarrow> Some y
      | None \<Rightarrow> rx_match ic (alts (s' # ss)) (MState sn rs g) k)"
  by (simp_all add: rx_match.simps in_class_def split: list.splits)

lemma rx_match_MState:
  "rx_match ic Eps (MState sn rs g) k = k (MState sn rs g)"
  "rx_match ic (Lit s) (MState sn rs g) k = (case match_lit ic s (MState sn rs g) of None \<Rightarrow> None | Some st' \<Rightarrow> k st')"
  "rx_match ic (OneOf cs) (MState sn [] g) k = None"
  "rx_match ic (OneOf cs) (MState sn (c # cr) g) k = (if in_class ic cs c then k (MState (c # sn) cr g) else None)"
  "rx_match ic Dot (MState sn [] g) k = None"
  "rx_match ic Dot (MState sn (c # cr) g) k = (if c \<noteq> CHR 0x0A then k (MState (c # sn) cr g) else None)"
  "rx_match ic WordB (MState [] [] g) k = None"
  "rx_match ic WordB (MState (a # sn) [] g) k = (if is_word a then k (MState (a # sn) [] g) else None)"
  "rx_match ic WordB (MState [] (c # cr) g) k = (if is_word c then k (MState [] (c # cr) g) else None)"
  "rx_match ic WordB (MState (a # sn) (c # cr) g) k =
     (if is_word a \<noteq> is_word c then k (MState (a # sn) (c # cr) g) else None)"
  "rx_match ic (Seq x y) (MState sn rs g) k = rx_match ic x (MState sn rs g) (\<lambda>st'. rx_match ic y st' k)"
  "rx_match ic (Alt x y) (MState sn rs g) k =
     (case rx_match ic x (MState sn rs g) k of Some z \<Rightarrow> Some z | None \<Rightarrow> rx_match ic y (MState sn rs g) k)"
  "rx_match ic (Rep r lo (Some h) greedy) (MState sn rs g) k = rep (rx_match ic r) greedy lo h (MState sn rs g) k"
  "rx_match ic (Grp n r) (MState sn rs g) k = rx_match ic r (MState sn rs g) (\<lambda>st'. k (set_cap n (MState sn rs g) st'))"
  by (simp_all add: rx_match.simps at_boundary_def)

lemma rx_match_Rep_None:
  "rx_match ic (Rep r lo None greedy) (MState sn rs g) k = rep (rx_match ic r) greedy lo (length rs) (MState sn rs g) k"
  by (simp add: rx_match.simps)

lemma rep_MState:
  "rep f greedy lo 0 (MState sn rs g) k = (if lo = 0 then k (MState sn rs g) else None)"
  "rep f greedy lo (Suc hi) (MState sn rs g) k =
     (if 0 < lo then f (MState sn rs g) (\<lambda>st'. rep f greedy (lo - 1) hi st' k)
      else if greedy then
        (case f (MState sn rs g) (\<lambda>st'. rep f greedy 0 hi st' k) of Some r \<Rightarrow> Some r | None \<Rightarrow> k (MState sn rs g))
      else
        (case k (MState sn rs g) of Some r \<Rightarrow> Some r | None \<Rightarrow> f (MState sn rs g) (\<lambda>st'. rep f greedy 0 hi st' k)))"
  "rep f greedy lo (numeral n) (MState sn rs g) k =
     (if 0 < lo then f (MState sn rs g) (\<lambda>st'. rep f greedy (lo - 1) (pred_numeral n) st' k)
      else if greedy then
        (case f (MState sn rs g) (\<lambda>st'. rep f greedy 0 (pred_numeral n) st' k) of Some r \<Rightarrow> Some r | None \<Rightarrow> k (MState sn rs g))
      else
        (case k (MState sn rs g) of Some r \<Rightarrow> Some r | None \<Rightarrow> f (MState sn rs g) (\<lambda>st'. rep f greedy 0 (pred_numeral n) st' k)))"
  by (simp_all add: rep.simps numeral_eq_Suc)

lemma rx_match_star:
  "rx_match ic (star cs) (MState sn [] g) k = k (MState sn [] g)"
  "rx_match ic (star cs) (MState sn (c # cr) g) k =
     (if in_class ic cs c
      then (case rx_match ic (star cs) (MState (c # sn) cr g) k of Some y \<Rightarrow> Some y
            | None \<Rightarrow> k (MState sn (c # cr) g))
      else k (MState sn (c # cr) g))"
  by (simp_all add: star_def rx_match.simps rep.simps)

lemma rx_match_plus:
  "rx_match ic (plus cs) (MState sn [] g) k = None"
  "rx_match ic (plus cs) (MState sn (c # cr) g) k =
     (if in_class ic cs c then rx_match ic (star cs) (MState (c # sn) cr g) k else None)"
  by (simp_all add: star_def plus_def rx_match.simps rep.simps)

lemma rx_match_ws:
  "rx_match ic ws0 (MState sn rs g) k = rx_match ic (star [CSpace]) (MState sn rs g) k"
  "rx_match ic ws1 (MState sn rs g) k = rx_match ic (plus [CSpace]) (MState sn rs g) k"
  by (simp_all add: ws0_def ws1_def)

lemma rx_match_lazy_dot:
  "rx_match ic (Rep Dot 0 None False) (MState sn [] g) k = k (MState sn [] g)"
  "rx_match ic (Rep Dot 0 None False) (MState sn (c # cr) g) k =
     (case k (MState sn (c # cr) g) of Some y \<Rightarrow> Some y
      | None \<Rightarrow> if c \<noteq> CHR 0x0A then rx_match ic (Rep Dot 0 None False) (MState (c # sn) cr g) k else None)"
  by (simp_all add: rx_match.simps rep.simps split: option.splits)

lemma rx_match_class_rep:
  "rx_match ic (Rep (OneOf cs) 0 None True) (MState sn rs g) k = rx_match ic (star cs) (MState sn rs g) k"
  "rx_match ic (Rep (OneOf cs) 1 None True) (MState sn rs g) k = rx_match ic (plus cs) (MState sn rs g) k"
  by (simp_all add: star_def plus_def)

lemmas char_eval = is_space_Char is_digit_Char is_upper_Char is_lower_Char is_word_def lower_c_Char upper_c_Char
  lower_def upper_def strip_def remove_char_def split_ws_def clean_text_def

lemmas num_eval = digit_val_Char nat_of_digits_def unsigned_float_def is_float_space_Char py_float_def
  round_half_even_def py_round3_def normalize_number_def

lemmas rx_eval = rx_match_MState rep_MState rx_match_cat rx_match_alts rx_match_star rx_match_plus
  rx_match_ws rx_match_lazy_dot rx_match_Rep_None set_cap_MState match_here_MState in_class_def
  re_search_def re_match_def group_def group_str_def re_findall_def has_loss_marker_def

lemmas pattern_defs =
  rx_unfold [OF opt_def]
  rx_unfold [OF words_lazy_def]
  rx_unfold [OF dollar_opt_def]
  rx_unfold [OF num_cd_def]
  rx_unfold [OF num_cdd_def]
  rx_unfold [OF num_grouped_def]
  rx_unfold [OF qualifier_def]
  rx_unfold [OF units_k4_def]
  rx_unfold [OF units_k9_def]
  rx_unfold [OF verbs_std_def]
  rx_unfold [OF verbs_came_to_def]
  rx_unfold [OF loss_marker_def]
  rx_unfold [OF revenue_pattern_def]
  rx_unfold [OF revenue_fallback_pattern_def]
  rx_unfold [OF net_income_pattern_def]
  rx_unfold [OF adjusted_net_income_before_def]
  rx_unfold [OF adjusted_net_income_after_def]
  rx_unfold [OF actual_eps_pattern_def]
  rx_unfold [OF actual_eps_spoken_pattern_def]
  rx_unfold [OF metric_pattern_def]
  rx_unfold [OF adjusted_ebitda_after_def]
  rx_unfold [OF adjusted_ebitda_before_def]
  rx_unfold [OF available_liquidity_before_def]
  rx_unfold [OF net_cash_balance_pattern_def]
  rx_unfold [OF credit_facility_pattern_def]
  rx_unfold [OF verbs_stood_at_def]
  rx_unfold [OF verbs_stood_reached_def]
  rx_unfold [OF liquidity_total_def]
  rx_unfold [OF liquidity_before_def]
  rx_unfold [OF liquidity_after_def]
  rx_unfold [OF total_available_liquidity_before_def]
  rx_unfold [OF total_available_liquidity_after_def]
  rx_unfold [OF payout_words_def]
  rx_unfold [OF payout_gap_def]
  rx_unfold [OF buybacks_pattern_def]
  rx_unfold [OF buybacks_pattern_rev_def]
  rx_unfold [OF combined_rate_ar6_pattern_def]
  rx_unfold [OF gaap_diluted_eps_pattern_def]
  rx_unfold [OF net_revenue_margin_pattern_def]
  rx_unfold [OF percent_pattern_def]
  rx_unfold [OF orders_pattern_def]
  rx_unfold [OF cash_flow_pattern_def]
  rx_unfold [OF adjusted_eps_pattern_def]
  rx_unfold [OF lumber_pattern_def]
  rx_unfold [OF total_net_sales_dollar_def]
  rx_unfold [OF total_net_sales_unit_def]
  rx_unfold [OF free_cash_flow_pattern_def]
  rx_unfold [OF interest_expense_after_def]
  rx_unfold [OF interest_expense_before_def]
  rx_unfold [OF num_unit_def]
  rx_unfold [OF gaap_operating_income_before_def]
  rx_unfold [OF gaap_operating_income_after_def]
  rx_unfold [OF year_over_year_pattern_def]
  rx_unfold [OF raising_pattern_def]
  rx_unfold [OF refinance_pattern_def]
  rx_unfold [OF challenge_pattern_def]
  rx_unfold [OF ticker_pattern_def]
  rx_unfold [OF quarter_year_pattern_def]
  rx_unfold [OF date_pattern_def]

lemmas matcher_defs = revenue_fallback_def parse_revenue_def net_income_value_def parse_net_income_def
  parse_adjusted_net_income_def parse_actual_eps_def parse_metric_def parse_consolidated_net_sales_def
  parse_consolidated_operating_income_def parse_marketplace_gov_def parse_total_orders_def
  parse_gaap_net_income_def parse_adjusted_ebitda_def parse_available_liquidity_def
  parse_net_cash_balance_def parse_credit_facility_def parse_liquidity_def
  parse_total_available_liquidity_def parse_share_buybacks_and_dividends_def parse_combined_rate_ar6_def
  parse_gaap_diluted_eps_def parse_net_revenue_margin_def parse_net_income_margin_def parse_orders_def
  parse_cash_flow_def parse_adjusted_eps_def parse_lumber_segment_adjusted_ebitda_def
  parse_total_net_sales_def parse_free_cash_flow_def parse_interest_expense_def split_num_unit_def
  num_unit_value_def gaap_operating_income_fallback_def parse_gaap_operating_income_def
  spoken_to_number_def NUM_WORDS_def all_digits_def digit_char_def str_nat.simps

lemmas classifier_defs = select_sentences_def contains_any_def extract_demand_sentences_def
  extract_forward_looking_statements_def extract_prior_year_comparisons_def
  extract_year_over_year_sentences_def extract_guidance_sentences_def extract_compared_to_sentences_def
  extract_raising_sentences_def extract_refinance_sentences_def extract_production_sentences_def
  extract_outlook_sentences_def extract_challenge_sentences_def

lemmas orchestrator_defs = of_opt_def dict_set_all_def remove_null_metrics_def metric_assignments_def
  narrative_assignments_def extract_metrics_def

lemmas identity_defs = split_on_def extract_ticker_quarter_year_date_def stem_def
  extract_from_filename_def falsy_def resolve_identity_def parse_transcript_file_def

lemmas eval_all = char_eval num_eval rx_eval pattern_defs matcher_defs classifier_defs orchestrator_defs identity_defs

section \<open>The Text Normalizer is idempotent\<close>

lemma is_space_blank: "is_space (CHR '' '')"
  by (simp add: is_space_def)

lemma is_space_newline: "is_space (CHR 0x0A)"
  by (simp add: is_space_def)

lemma sub_ws_single_spaced:
  "single_spaced (sub_ws b s) \<and> (b \<longrightarrow> (case sub_ws b s of [] \<Rightarrow> True | c # _ \<Rightarrow> \<not> is_space c))"
proof (induction s arbitrary: b)
  case Nil
  show ?case by simp
next
  case (Cons c cs)
  have t: "single_spaced (sub_ws True cs)" "case sub_ws True cs of [] \<Rightarrow> True | c # _ \<Rightarrow> \<not> is_space c"
    using Cons.IH [of True] by simp_all
  have f: "single_spaced (sub_ws False cs)" using Cons.IH [of False] by simp
  show ?case
  proof (cases "is_space c")
    case True
    then show ?thesis using t by (cases "sub_ws True cs") (auto simp: is_space_blank)
  next
    case False
    then show ?thesis using f by (cases "sub_ws False cs") auto
  qed
qed

lemma single_spaced_tl: "single_spaced (c # s) \<Longrightarrow> single_spaced s"
  by (cases s) auto

lemma single_spaced_dropWhile: "single_spaced s \<Longrightarrow> single_spaced (dropWhile p s)"
  by (induction s) (auto dest: single_spaced_tl)

lemma single_spaced_prefix: "single_spaced (xs @ ys) \<Longrightarrow> single_spaced xs"
proof (induction xs rule: single_spaced.induct)
  case 1 show ?case by simp
next
  case (2 c) then show ?case by (cases ys) auto
next
  case (3 a b r) then show ?case by auto
qed

lemma trim_right_prefix: "\<exists>zs. s = rev (dropWhile p (rev s)) @ zs"
proof -
  have "rev s = takeWhile p (rev s) @ dropWhile p (rev s)" by simp
  then have "s = rev (dropWhile p (rev s)) @ rev (takeWhile p (rev s))"
    by (metis rev_append rev_rev_ident)
  then show ?thesis by blast
qed

lemma single_spaced_strip: "single_spaced s \<Longrightarrow> single_spaced (strip s)"
proof -
  assume "single_spaced s"
  then have d: "single_spaced (dropWhile is_space s)" by (rule single_spaced_dropWhile)
  obtain zs where "dropWhile is_space s = strip s @ zs"
    unfolding strip_def using trim_right_prefix by blast
  with d show ?thesis by (metis single_spaced_prefix)
qed

lemma strip_trimmed: "trimmed (strip s)"
proof -
  let ?u = "dropWhile is_space s"
  let ?t = "strip s"
  have t: "?t = rev (dropWhile is_space (rev ?u))" by (simp add: strip_def)
  show ?thesis unfolding trimmed_def
  proof
    assume ne: "?t \<noteq> []"
    then have ne2: "dropWhile is_space (rev ?u) \<noteq> []" using t by simp
    have l: "\<not> is_space (last ?t)"
      using ne2 hd_dropWhile [of is_space "rev ?u"] by (simp add: t last_rev)
    obtain zs where z: "?u = ?t @ zs" using trim_right_prefix t by metis
    then have "?u \<noteq> []" using ne by auto
    then have "\<not> is_space (hd ?u)" by (rule hd_dropWhile)
    moreover have "hd ?u = hd ?t" using z ne by (metis hd_append2)
    ultimately show "\<not> is_space (hd ?t) \<and> \<not> is_space (last ?t)" using l by simp
  qed
qed

lemma strip_id: "trimmed s \<Longrightarrow> strip s = s"
proof (cases s)
  case Nil then show ?thesis by (simp add: strip_def)
next
  case (Cons c cs)
  assume "trimmed s"
  then have h: "\<not> is_space (hd s)" and l: "\<not> is_space (last s)" using Cons by (auto simp: trimmed_def)
  have "dropWhile is_space s = s" using h Cons by simp
  moreover have "dropWhile is_space (rev s) = rev s"
  proof -
    have "rev s \<noteq> []" using Cons by simp
    moreover have "hd (rev s) = last s" using Cons by (simp add: hd_rev)
    ultimately have "\<not> is_space (hd (rev s))" using l by simp
    then show ?thesis by (cases "rev s") simp_all
  qed
  ultimately show ?thesis by (simp add: strip_def)
qed

lemma single_spaced_blank: "single_spaced s \<Longrightarrow> c \<in> set s \<Longrightarrow> is_space c \<Longrightarrow> c = CHR '' ''"
  by (induction s rule: single_spaced.induct) auto

lemma sub_ws_id: "single_spaced s \<Longrightarrow> (b \<longrightarrow> s = [] \<or> \<not> is_space (hd s)) \<Longrightarrow> sub_ws b s = s"
proof (induction s arbitrary: b rule: single_spaced.induct)
  case 1 show ?case by simp
next
  case (2 c) then show ?case by auto
next
  case (3 a b' r) 
  then show ?case by auto
qed

lemma newline_free: "single_spaced s \<Longrightarrow> map (\<lambda>c. if c = CHR 0x0A then CHR '' '' else c) s = s"
proof -
  assume "single_spaced s"
  then have "\<forall>c \<in> set s. c \<noteq> CHR 0x0A"
    using single_spaced_blank is_space_newline by fastforce
  then show ?thesis by (simp add: map_idI)
qed

lemma clean_text_fixed: "single_spaced s \<Longrightarrow> trimmed s \<Longrightarrow> clean_text s = s"
  by (simp add: clean_text_def newline_free sub_ws_id strip_id)

lemma split_acc_map:
  assumes "\<And>c. is_space (f c) = is_space c" "\<And>c. \<not> is_space c \<Longrightarrow> f c = c"
  shows "split_acc cur (map f s) = split_acc cur s"
  using assms by (induction s arbitrary: cur) auto

lemma split_acc_sub_ws: "(b \<longrightarrow> cur = []) \<Longrightarrow> split_acc cur (sub_ws b s) = split_acc cur s"
  by (induction s arbitrary: b cur) (auto simp: is_space_blank)

lemma split_acc_dropWhile: "split_acc [] (dropWhile is_space s) = split_acc [] s"
  by (induction s) auto

lemma split_acc_spaces: "list_all is_space ws \<Longrightarrow> split_acc cur ws = (if cur = [] then [] else [cur])"
  by (induction ws arbitrary: cur) auto

lemma split_acc_trailing: "list_all is_space ws \<Longrightarrow> split_acc cur (xs @ ws) = split_acc cur xs"
  by (induction xs arbitrary: cur) (auto simp: split_acc_spaces)

lemma trim_right_decomp:
  "s = rev (dropWhile p (rev s)) @ rev (takeWhile p (rev s))"
proof -
  have "rev s = takeWhile p (rev s) @ dropWhile p (rev s)" by simp
  then show ?thesis by (metis rev_append rev_rev_ident)
qed

lemma split_ws_strip: "split_ws (strip s) = split_ws s"
proof -
  let ?u = "dropWhile is_space s"
  have a: "list_all is_space (rev (takeWhile is_space (rev ?u)))"
    by (simp add: list_all_iff) (meson set_takeWhileD)
  have "split_acc [] ?u = split_acc [] (strip s @ rev (takeWhile is_space (rev ?u)))"
    unfolding strip_def using trim_right_decomp [of ?u is_space] by simp
  also have "\<dots> = split_acc [] (strip s)" using a by (rule split_acc_trailing)
  finally show ?thesis by (simp add: split_ws_def split_acc_dropWhile)
qed

lemma split_ws_clean_text: "split_ws (clean_text s) = split_ws s"
proof -
  have "split_ws (clean_text s) = split_acc [] (sub_ws False (map (\<lambda>c. if c = CHR 0x0A then CHR '' '' else c) s))"
    by (simp add: clean_text_def split_ws_strip) (simp add: split_ws_def)
  also have "\<dots> = split_acc [] (map (\<lambda>c. if c = CHR 0x0A then CHR '' '' else c) s)"
    by (simp add: split_acc_sub_ws)
  also have "\<dots> = split_acc [] s"
    by (rule split_acc_map) (auto simp: is_space_blank is_space_newline)
  finally show ?thesis by (simp add: split_ws_def)
qed

lemma split_acc_nonempty: "cur \<noteq> [] \<or> (s \<noteq> [] \<and> \<not> is_space (hd s)) \<Longrightarrow> split_acc cur s \<noteq> []"
  by (induction s arbitrary: cur) auto

lemma join_Cons: "xs \<noteq> [] \<Longrightarrow> join sep (x # xs) = x @ sep @ join sep xs"
  by (cases xs) auto

lemma join_split_acc:
  "single_spaced t \<Longrightarrow> (t \<noteq> [] \<longrightarrow> \<not> is_space (last t)) \<Longrightarrow> (cur = [] \<longrightarrow> t = [] \<or> \<not> is_space (hd t)) \<Longrightarrow>
   join '' '' (split_acc cur t) = cur @ t"
proof (induction t arbitrary: cur)
  case Nil
  then show ?case by simp
next
  case (Cons c cs)
  have ss: "single_spaced cs" using Cons.prems(1) by (rule single_spaced_tl)
  have la: "cs \<noteq> [] \<longrightarrow> \<not> is_space (last cs)" using Cons.prems(2) by auto
  show ?case
  proof (cases "is_space c")
    case True
    then have c: "c = CHR '' ''" using Cons.prems(1) by (cases cs) auto
    have cur: "cur \<noteq> []" using True Cons.prems(3) by auto
    have cs: "cs \<noteq> []" using True Cons.prems(2) by auto
    then have hd: "\<not> is_space (hd cs)" using True Cons.prems(1) by (cases cs) auto
    have ne: "split_acc [] cs \<noteq> []" using cs hd by (simp add: split_acc_nonempty)
    have "join '' '' (split_acc [] cs) = [] @ cs"
      using ss la hd by (intro Cons.IH) auto
    then show ?thesis using True cur ne c by (simp add: join_Cons)
  next
    case False
    have "join '' '' (split_acc (cur @ [c]) cs) = (cur @ [c]) @ cs"
      using ss la by (intro Cons.IH) auto
    then show ?thesis using False by simp
  qed
qed

lemma join_split_ws: "single_spaced t \<Longrightarrow> trimmed t \<Longrightarrow> join '' '' (split_ws t) = t"
  using join_split_acc [of t "[]"] by (auto simp: split_ws_def trimmed_def)


text \<open>
  C9. Applying the Text Normalizer twice equals applying it once, for every string; one
  application yields the whitespace-separated words of the input joined by single
  blanks, that is, every run of whitespace (newlines and tabs included) is collapsed to
  one blank and the text is trimmed at both ends.
\<close>

theorem clean_text_idempotent: 
  "clean_text (clean_text s) = clean_text s \<and> clean_text s = join '' '' (split_ws s)"
proof -
  have ss: "single_spaced (clean_text s)"
    unfolding clean_text_def using sub_ws_single_spaced by (intro single_spaced_strip) blast
  have tr: "trimmed (clean_text s)" unfolding clean_text_def by (rule strip_trimmed)
  have "join '' '' (split_ws (clean_text s)) = clean_text s" using ss tr by (rule join_split_ws)
  then have "clean_text s = join '' '' (split_ws s)" by (simp add: split_ws_clean_text)
  moreover have "clean_text (clean_text s) = clean_text s" using ss tr by (rule clean_text_fixed)
  ultimately show ?thesis by simp
qed

section \<open>Numeric/Unit Normalizer\<close>







section \<open>Spoken-Number Decoder\<close>

lemma map_of_filter_below:
  "map_of (filter (\<lambda>(w, n). n < (100::nat)) kvs) tok =
     (case map_of kvs tok of Some n \<Rightarrow> if n < 100 then Some n else None | None \<Rightarrow> None)"
  if "distinct (map fst kvs)"
  using that
proof (induction kvs)
  case Nil
  show ?case by simp
next
  case (Cons kv kvs)
  obtain w n where kv: "kv = (w, n)" by (cases kv)
  have d: "distinct (map fst kvs)" and nin: "w \<notin> fst ` set kvs" using Cons.prems kv by auto
  have none: "map_of kvs w = None" using nin by (simp add: map_of_eq_None_iff)
  show ?case using Cons.IH [OF d] kv none by (auto split: option.splits)
qed

lemma distinct_NUM_WORDS: "distinct (map fst NUM_WORDS)"
  by (simp add: NUM_WORDS_def)

lemma token_digits_loop:
  "token_digits tok =
     (if (case map_of NUM_WORDS tok of Some n \<Rightarrow> n < 100 | None \<Rightarrow> False)
      then Some (str_nat (the (map_of NUM_WORDS tok)))
      else if tok \<in> set [''oh'', ''o''] then Some ''0''
      else if all_digits tok then Some tok
      else None)"
  unfolding token_digits_def map_of_filter_below [OF distinct_NUM_WORDS]
  by (auto split: option.splits)

lemma spoken_loop_step:
  "spoken_loop (tok # toks) digits =
     (case token_digits tok of Some d \<Rightarrow> spoken_loop toks (digits @ [d]) | None \<Rightarrow> digits)"
proof -
  consider (word) "case map_of NUM_WORDS tok of Some n \<Rightarrow> n < 100 | None \<Rightarrow> False"
    | (oh) "\<not> (case map_of NUM_WORDS tok of Some n \<Rightarrow> n < 100 | None \<Rightarrow> False)" "tok \<in> set [''oh'', ''o'']"
    | (digits) "\<not> (case map_of NUM_WORDS tok of Some n \<Rightarrow> n < 100 | None \<Rightarrow> False)" "tok \<notin> set [''oh'', ''o'']" "all_digits tok"
    | (other) "\<not> (case map_of NUM_WORDS tok of Some n \<Rightarrow> n < 100 | None \<Rightarrow> False)" "tok \<notin> set [''oh'', ''o'']" "\<not> all_digits tok"
    by blast
  then show ?thesis
  proof cases
    case word
    then have "token_digits tok = Some (str_nat (the (map_of NUM_WORDS tok)))"
      by (simp add: token_digits_loop)
    then show ?thesis using word by simp
  next
    case oh
    then have "token_digits tok = Some ''0''" by (simp add: token_digits_loop)
    then show ?thesis using oh by simp
  next
    case digits
    then have "token_digits tok = Some tok" by (simp add: token_digits_loop)
    then show ?thesis using digits by simp
  next
    case other
    then have "token_digits tok = None" by (simp add: token_digits_loop)
    then show ?thesis using other by simp
  qed
qed

lemma spoken_loop_takeWhile:
  "spoken_loop toks digits =
     digits @ map (\<lambda>tok. the (token_digits tok)) (takeWhile (\<lambda>tok. token_digits tok \<noteq> None) toks)"
proof (induction toks arbitrary: digits)
  case Nil
  show ?case by simp
next
  case (Cons tok toks)
  show ?case
    unfolding spoken_loop_step by (cases "token_digits tok") (simp_all add: Cons.IH)
qed

text \<open>
  C6. The decoder splits the lower-cased span at whitespace, consumes tokens while they
  are number words below one hundred, "oh"/"o" (digit 0) or digit runs, concatenates
  their digits, stops at the first other token, and returns the number read, or no
  value when no token was consumed. "three eighteen" decodes to 318; "actual EPS of
  seventeen cents" gives actual_eps 0.17, and with ", a loss" appended -0.17.
\<close>

theorem spoken_to_number_decodes:
  "spoken_to_number text = decode_spoken text \<and>
   spoken_to_number ''three eighteen'' = Some 318 \<and>
   parse_actual_eps ''actual EPS of seventeen cents'' = Some (17 / 100) \<and>
   parse_actual_eps ''actual EPS of seventeen cents, a loss'' = Some (- (17 / 100))"
proof -
  have a: "spoken_to_number text = decode_spoken text"
    by (simp add: spoken_to_number_def decode_spoken_def spoken_loop_takeWhile Let_def)
  have b: "spoken_to_number ''three eighteen'' = Some 318"
    by (simp add: eval_all cong: rx_congs)
  have c: "parse_actual_eps ''actual EPS of seventeen cents'' = Some (17 / 100)"
    by (simp add: eval_all cong: rx_congs)
  have d: "parse_actual_eps ''actual EPS of seventeen cents, a loss'' = Some (- (17 / 100))"
    by (simp add: eval_all cong: rx_congs)
  show ?thesis using a b c d by simp
qed

theorem spoken_to_number_decodes_witness:
  "spoken_to_number ''one oh five'' = Some 105 \<and> decode_spoken ''one oh five'' = Some 105 \<and>
   spoken_to_number ''hundred'' = None \<and> decode_spoken ''hundred'' = None"
proof -
  have a: "spoken_to_number ''one oh five'' = Some 105" "spoken_to_number ''hundred'' = None"
    by (simp_all add: eval_all cong: rx_congs)
  show ?thesis
    using a spoken_to_number_decodes [of "''one oh five''"] spoken_to_number_decodes [of "''hundred''"]
    by simp
qed

section \<open>Sign of net income and EPS\<close>

lemma net_income_loop_first:
  assumes "\<forall>p \<in> set pre. re_search True net_income_pattern p = None"
    and "re_search True net_income_pattern s = Some m"
  shows "net_income_loop (pre @ s # post) = net_income_value m"
  using assms by (induction pre) simp_all

lemma filter_skip_adjusted:
  assumes "\<forall>p \<in> set pre. contains ''adjusted net income'' (lower p) \<or> re_search True net_income_pattern p = None"
    and "\<not> contains ''adjusted net income'' (lower s)"
  shows "\<exists>pre' post'. filter (\<lambda>s. \<not> contains ''adjusted net income'' (lower s)) (pre @ s # post) = pre' @ s # post' \<and>
           (\<forall>p \<in> set pre'. re_search True net_income_pattern p = None)"
proof -
  let ?f = "\<lambda>s. \<not> contains ''adjusted net income'' (lower s)"
  have "filter ?f (pre @ s # post) = filter ?f pre @ s # filter ?f post" using assms(2) by simp
  moreover have "\<forall>p \<in> set (filter ?f pre). re_search True net_income_pattern p = None"
    using assms(1) by auto
  ultimately show ?thesis by blast
qed



lemma parse_actual_eps_digits:
  assumes "map_option (\<lambda>m. group_str m 1) (re_search True actual_eps_pattern (clean_text text)) = Some lit"
    and "py_float (remove_char (CHR '','') lit) = Some x"
  shows "parse_actual_eps text =
           Some (py_round3 (if has_loss_marker (clean_text text) then - \<bar>x\<bar> else \<bar>x\<bar>))"
proof -
  obtain m where m: "re_search True actual_eps_pattern (clean_text text) = Some m" "group_str m 1 = lit"
    using assms(1) by auto
  show ?thesis using m assms(2) by (simp add: parse_actual_eps_def Let_def)
qed

text \<open>
  C3 (amended). Net income: the value of the first sentence that does not contain
  "adjusted net income" and matches the pattern is negated exactly when the matched
  head noun is "loss" (in any letter case), whatever else the sentence contains. Actual
  EPS: the magnitude of the captured literal is negated exactly when the whole
  normalized text contains the word "loss", "negative" or "deficit". In particular
  "net loss of $200 million" yields net_income -200 and "net income of $200 million"
  yields net_income 200.
\<close>

theorem sign_inference:
  "((\<forall>p \<in> set pre. contains ''adjusted net income'' (lower p) \<or> re_search True net_income_pattern p = None) \<longrightarrow>
     \<not> contains ''adjusted net income'' (lower s) \<longrightarrow>
     sents (clean_text text) = pre @ s # post \<longrightarrow>
     re_search True net_income_pattern s = Some m \<longrightarrow>
     normalize_number (remove_char (CHR '','') (group_str m 2)) (group m 3) = Some v \<longrightarrow>
     parse_net_income sents text = Some (if lower (group_str m 1) = ''loss'' then - v else v)) \<and>
   (map_option (\<lambda>m. group_str m 1) (re_search True actual_eps_pattern (clean_text text')) = Some lit \<longrightarrow>
     py_float (remove_char (CHR '','') lit) = Some x \<longrightarrow>
     parse_actual_eps text' = Some (py_round3 (if has_loss_marker (clean_text text') then - \<bar>x\<bar> else \<bar>x\<bar>))) \<and>
   (sents' ''net loss of $200 million'' = [''net loss of $200 million''] \<longrightarrow>
     parse_net_income sents' ''net loss of $200 million'' = Some (- 200)) \<and>
   (sents' ''net income of $200 million'' = [''net income of $200 million''] \<longrightarrow>
     parse_net_income sents' ''net income of $200 million'' = Some 200)"
proof -
  have a: "parse_net_income sents text = Some (if lower (group_str m 1) = ''loss'' then - v else v)"
    if h: "\<forall>p \<in> set pre. contains ''adjusted net income'' (lower p) \<or> re_search True net_income_pattern p = None"
      "\<not> contains ''adjusted net income'' (lower s)"
      "sents (clean_text text) = pre @ s # post"
      "re_search True net_income_pattern s = Some m"
      "normalize_number (remove_char (CHR '','') (group_str m 2)) (group m 3) = Some v"
  proof -
    obtain pre' post' where f: "filter (\<lambda>s. \<not> contains ''adjusted net income'' (lower s)) (pre @ s # post) = pre' @ s # post'"
      "\<forall>p \<in> set pre'. re_search True net_income_pattern p = None"
      using filter_skip_adjusted [OF h(1) h(2)] by blast
    have "parse_net_income sents text = net_income_value m"
      using f h(3) h(4) by (simp add: parse_net_income_def Let_def net_income_loop_first)
    then show ?thesis using h(5) by (simp add: net_income_value_def Let_def)
  qed
  have c1: "clean_text ''net loss of $200 million'' = ''net loss of $200 million''"
    and c2: "clean_text ''net income of $200 million'' = ''net income of $200 million''"
    by (simp_all add: char_eval)
  have l1: "net_income_loop [''net loss of $200 million''] = Some (- 200)"
    by (simp add: eval_all cong: rx_congs)
  have l2: "net_income_loop [''net income of $200 million''] = Some 200"
    by (simp add: eval_all cong: rx_congs)
  have f1: "\<not> contains ''adjusted net income'' (lower ''net loss of $200 million'')"
    and f2: "\<not> contains ''adjusted net income'' (lower ''net income of $200 million'')"
    by (simp_all add: char_eval)
  have e1: "parse_net_income sents' ''net loss of $200 million'' = Some (- 200)"
    if "sents' ''net loss of $200 million'' = [''net loss of $200 million'']"
    using that l1 f1 by (simp add: parse_net_income_def c1 Let_def)
  have e2: "parse_net_income sents' ''net income of $200 million'' = Some 200"
    if "sents' ''net income of $200 million'' = [''net income of $200 million'']"
    using that l2 f2 by (simp add: parse_net_income_def c2 Let_def)
  show ?thesis using a parse_actual_eps_digits e1 e2 by blast
qed

theorem sign_inference_witness:
  "parse_net_income (\<lambda>t. [t]) ''net loss of $200 million'' = Some (- 200) \<and>
   parse_net_income (\<lambda>t. [t]) ''net income of $200 million'' = Some 200 \<and>
   parse_net_income (\<lambda>t. [''Adjusted net income was $9 million.'', ''It was a good year.'', ''Net Loss was $3 million.''])
     ''Adjusted net income was $9 million. It was a good year. Net Loss was $3 million.'' = Some (- 3) \<and>
   parse_actual_eps ''Actual EPS: $0.17 despite a deficit'' = Some (- (17 / 100))"
proof -
  let ?T = "''Adjusted net income was $9 million. It was a good year. Net Loss was $3 million.''"
  let ?S = "\<lambda>t::string. [''Adjusted net income was $9 million.'', ''It was a good year.'', ''Net Loss was $3 million.'']"
  have g: "map_option (\<lambda>m. (group_str m 1, remove_char (CHR '','') (group_str m 2), group m 3))
             (re_search True net_income_pattern ''Net Loss was $3 million.'') = Some (''Loss'', ''3'', Some ''million'')"
    by (simp add: eval_all cong: rx_congs)
  then obtain m where m: "re_search True net_income_pattern ''Net Loss was $3 million.'' = Some m"
    "group_str m 1 = ''Loss''" "remove_char (CHR '','') (group_str m 2) = ''3''" "group m 3 = Some ''million''"
    by auto
  have n: "normalize_number (remove_char (CHR '','') (group_str m 2)) (group m 3) = Some 3"
    unfolding m by (simp add: char_eval num_eval)
  have pre: "\<forall>p \<in> set [''Adjusted net income was $9 million.'', ''It was a good year.''].
      contains ''adjusted net income'' (lower p) \<or> re_search True net_income_pattern p = None"
    by (simp add: eval_all cong: rx_congs)
  have s: "\<not> contains ''adjusted net income'' (lower ''Net Loss was $3 million.'')"
    by (simp add: char_eval)
  have low: "lower (group_str m 1) = ''loss''" unfolding m by (simp add: char_eval)
  have a: "parse_net_income ?S ?T = Some (- 3)"
    using sign_inference [of "[''Adjusted net income was $9 million.'', ''It was a good year.'']"
        "''Net Loss was $3 million.''" ?S ?T "[]" m 3]
      pre s m(1) n low by simp
  have b: "parse_net_income (\<lambda>t. [t]) ''net loss of $200 million'' = Some (- 200)"
    "parse_net_income (\<lambda>t. [t]) ''net income of $200 million'' = Some 200"
    using sign_inference [where sents' = "\<lambda>t. [t]"] by simp_all
  have lit: "map_option (\<lambda>m. group_str m 1)
      (re_search True actual_eps_pattern (clean_text ''Actual EPS: $0.17 despite a deficit'')) = Some ''0.17''"
    by (simp add: eval_all cong: rx_congs)
  have pf: "py_float (remove_char (CHR '','') ''0.17'') = Some (17 / 100)"
    by (simp add: char_eval num_eval)
  have mk: "has_loss_marker (clean_text ''Actual EPS: $0.17 despite a deficit'')"
    by (simp add: eval_all cong: rx_congs)
  have r: "py_round3 (- (17 / 100)) = - (17 / 100)" by (simp add: num_eval)
  have c: "parse_actual_eps ''Actual EPS: $0.17 despite a deficit'' = Some (- (17 / 100))"
    using sign_inference [where text' = "''Actual EPS: $0.17 despite a deficit''" and lit = "''0.17''" and x = "17 / 100"]
      lit pf mk r by simp
  show ?thesis using a b c by simp
qed

text \<open>
  The claim as stated fails for net income: a sentence may contain the marker
  "negative" and the value is still not negated, because only the head noun decides.
\<close>

theorem sign_inference_counterexample:
  "has_loss_marker ''net income of $200 million despite negative sentiment'' \<and>
   parse_net_income (\<lambda>t. [t]) ''net income of $200 million despite negative sentiment'' = Some 200"
  by (simp add: eval_all cong: rx_congs)

section \<open>A minus sign in the actual-EPS literal\<close>





section \<open>Unparsable literals\<close>

lemma normalize_number_unparsable:
  "py_float (remove_char (CHR ''$'') (remove_char (CHR '','') num_str)) = None \<Longrightarrow>
   normalize_number num_str unit = None"
  by (simp add: normalize_number_def)

text \<open>
  C7. Number normalization returns no value for a literal that is no float. The
  net-income matcher, however, returns at the first sentence the pattern matches, also
  when that literal is unparsable: in the text below the pattern captures a lone comma
  in the first sentence, the matcher returns no value, and the second sentence, which
  alone yields 5, is never tried (the same happens when the text is kept as a single
  sentence). The revenue matcher does go on in this situation.
\<close>

theorem net_income_stops_at_unparsable:
  "normalize_number '','' None = None \<and>
   map_option (\<lambda>m. group_str m 2) (re_search True net_income_pattern ''Net income, we note.'') = Some '','' \<and>
   parse_net_income (\<lambda>t. [''Net income, we note.'', ''Net income was $5 million.''])
     ''Net income, we note. Net income was $5 million.'' = None \<and>
   parse_net_income (\<lambda>t. [t]) ''Net income, we note. Net income was $5 million.'' = None \<and>
   parse_net_income (\<lambda>t. [''Net income was $5 million.'']) ''Net income was $5 million.'' = Some 5 \<and>
   parse_revenue ''Revenue, we note. Revenue was $5 million.'' = Some 5"
  by (simp add: eval_all cong: rx_congs)

section \<open>Order of the stages of the revenue matcher\<close>

lemma revenue_loop_Some:
  "revenue_loop ms = Some v \<Longrightarrow>
     \<exists>pre m post. ms = pre @ m # post \<and>
       (\<forall>p \<in> set pre. normalize_number (group_str p 2) (Some (group_str p 3)) = None) \<and>
       normalize_number (group_str m 2) (Some (group_str m 3)) = Some v"
proof (induction ms)
  case Nil
  then show ?case by simp
next
  case (Cons a ms)
  show ?case
  proof (cases "normalize_number (group_str a 2) (Some (group_str a 3))")
    case None
    then have "revenue_loop ms = Some v" using Cons.prems by simp
    then obtain pre m post where h: "ms = pre @ m # post"
      "\<forall>p \<in> set pre. normalize_number (group_str p 2) (Some (group_str p 3)) = None"
      "normalize_number (group_str m 2) (Some (group_str m 3)) = Some v"
      using Cons.IH by blast
    have "a # ms = (a # pre) @ m # post" using h(1) by simp
    moreover have "\<forall>p \<in> set (a # pre). normalize_number (group_str p 2) (Some (group_str p 3)) = None"
      using h(2) None by simp
    ultimately show ?thesis using h(3) by blast
  next
    case (Some w)
    then have "w = v" using Cons.prems by simp
    then have "a # ms = [] @ a # ms \<and> (\<forall>p \<in> set []. normalize_number (group_str p 2) (Some (group_str p 3)) = None) \<and>
        normalize_number (group_str a 2) (Some (group_str a 3)) = Some v"
      using Some by simp
    then show ?thesis by blast
  qed
qed

lemma revenue_loop_None:
  "revenue_loop ms = None \<longleftrightarrow> (\<forall>m \<in> set ms. normalize_number (group_str m 2) (Some (group_str m 3)) = None)"
  by (induction ms) (auto split: option.splits)

text \<open>
  C5. The near-keyword pattern is tried over all its occurrences first: when one of
  them normalizes to a value, the first such value is the result and the fallback has
  no say; the fallback (a dollar sign before seven or more digits and commas, accepted
  only when "revenue" occurs in the text) gives the result exactly when no near-keyword
  candidate normalized to a value. In the text below "revenue" is followed by a near
  number and, forty words later, by "$12,000,000": the result is the near value 5, not
  the 12 the fallback would give.
\<close>

theorem revenue_stage_order:
  "(\<forall>v. revenue_loop (re_findall True revenue_pattern (clean_text text)) = Some v \<longrightarrow>
        parse_revenue text = Some v \<and>
        (\<exists>pre m post. re_findall True revenue_pattern (clean_text text) = pre @ m # post \<and>
           (\<forall>p \<in> set pre. normalize_number (group_str p 2) (Some (group_str p 3)) = None) \<and>
           normalize_number (group_str m 2) (Some (group_str m 3)) = Some v)) \<and>
   ((\<forall>m \<in> set (re_findall True revenue_pattern (clean_text text)).
        normalize_number (group_str m 2) (Some (group_str m 3)) = None) \<longrightarrow>
      parse_revenue text = revenue_fallback (clean_text text)) \<and>
   (\<not> contains ''revenue'' (lower (clean_text text)) \<longrightarrow> revenue_fallback (clean_text text) = None) \<and>
   parse_revenue ''revenue was 5 million a a a a a a a a a a a a a a a a a a a a a a a a a a a a a a a a a a a a a a a a $12,000,000'' = Some 5 \<and>
   revenue_fallback ''revenue was 5 million a a a a a a a a a a a a a a a a a a a a a a a a a a a a a a a a a a a a a a a a $12,000,000'' = Some 12"
proof -
  have a: "parse_revenue text = Some v" if "revenue_loop (re_findall True revenue_pattern (clean_text text)) = Some v" for v
    using that by (simp add: parse_revenue_def Let_def)
  have b: "parse_revenue text = revenue_fallback (clean_text text)"
    if "\<forall>m \<in> set (re_findall True revenue_pattern (clean_text text)).
        normalize_number (group_str m 2) (Some (group_str m 3)) = None"
  proof -
    have "revenue_loop (re_findall True revenue_pattern (clean_text text)) = None"
      using that by (simp add: revenue_loop_None)
    then show ?thesis by (simp add: parse_revenue_def Let_def)
  qed
  have c: "revenue_fallback (clean_text text) = None" if "\<not> contains ''revenue'' (lower (clean_text text))"
    using that by (simp add: revenue_fallback_def)
  have d: "parse_revenue ''revenue was 5 million a a a a a a a a a a a a a a a a a a a a a a a a a a a a a a a a a a a a a a a a $12,000,000'' = Some 5"
    by (simp add: eval_all cong: rx_congs)
  have e: "revenue_fallback ''revenue was 5 million a a a a a a a a a a a a a a a a a a a a a a a a a a a a a a a a a a a a a a a a $12,000,000'' = Some 12"
    by (simp add: eval_all cong: rx_congs)
  show ?thesis using a b c d e revenue_loop_Some by blast
qed

theorem revenue_stage_order_witness:
  "revenue_loop (re_findall True revenue_pattern (clean_text ''Revenue, up. Revenue of $2.5 billion and $9,000,000'')) = Some 2500 \<and>
   parse_revenue ''Revenue, up. Revenue of $2.5 billion and $9,000,000'' = Some 2500 \<and>
   map (\<lambda>m. normalize_number (group_str m 2) (Some (group_str m 3)))
     (re_findall True revenue_pattern (clean_text ''Our revenue, in total $9,000,000'')) = [None] \<and>
   parse_revenue ''Our revenue, in total $9,000,000'' = Some 9 \<and>
   contains ''revenue'' (lower (clean_text ''Sales of $9,000,000'')) = False \<and>
   revenue_fallback (clean_text ''Sales of $9,000,000'') = None"
proof -
  have a: "revenue_loop (re_findall True revenue_pattern (clean_text ''Revenue, up. Revenue of $2.5 billion and $9,000,000'')) = Some 2500"
    by (simp add: eval_all cong: rx_congs)
  have m: "map (\<lambda>m. normalize_number (group_str m 2) (Some (group_str m 3)))
     (re_findall True revenue_pattern (clean_text ''Our revenue, in total $9,000,000'')) = [None]"
    by (simp add: eval_all cong: rx_congs)
  have b: "\<forall>m \<in> set (re_findall True revenue_pattern (clean_text ''Our revenue, in total $9,000,000'')).
        normalize_number (group_str m 2) (Some (group_str m 3)) = None"
  proof
    fix x assume "x \<in> set (re_findall True revenue_pattern (clean_text ''Our revenue, in total $9,000,000''))"
    then have "normalize_number (group_str x 2) (Some (group_str x 3)) \<in>
        set (map (\<lambda>m. normalize_number (group_str m 2) (Some (group_str m 3)))
          (re_findall True revenue_pattern (clean_text ''Our revenue, in total $9,000,000'')))"
      by simp
    then show "normalize_number (group_str x 2) (Some (group_str x 3)) = None"
      unfolding m by simp
  qed
  have f: "revenue_fallback (clean_text ''Our revenue, in total $9,000,000'') = Some 9"
    by (simp add: eval_all cong: rx_congs)
  have c: "\<not> contains ''revenue'' (lower (clean_text ''Sales of $9,000,000''))"
    by (simp add: char_eval)
  have 1: "parse_revenue ''Revenue, up. Revenue of $2.5 billion and $9,000,000'' = Some 2500"
    using revenue_stage_order [of "''Revenue, up. Revenue of $2.5 billion and $9,000,000''"] a by blast
  have 2: "parse_revenue ''Our revenue, in total $9,000,000'' = Some 9"
    using revenue_stage_order [of "''Our revenue, in total $9,000,000''"] b f by simp
  have 3: "revenue_fallback (clean_text ''Sales of $9,000,000'') = None"
    using revenue_stage_order [of "''Sales of $9,000,000''"] c by blast
  show ?thesis using a m c 1 2 3 by simp
qed

section \<open>Extraction Orchestrator\<close>

lemma dict_set_fresh: "k \<notin> fst ` set d \<Longrightarrow> dict_set d k v = d @ [(k, v)]"
  by (induction d) auto

lemma dict_set_all_fresh:
  "distinct (map fst kvs) \<Longrightarrow> fst ` set kvs \<inter> fst ` set d = {} \<Longrightarrow> dict_set_all d kvs = d @ kvs"
proof (induction kvs arbitrary: d)
  case Nil
  show ?case by (simp add: dict_set_all_def)
next
  case (Cons kv kvs)
  obtain k v where kv: "kv = (k, v)" by (cases kv)
  have fresh: "k \<notin> fst ` set d" using Cons.prems(2) kv by auto
  have d: "distinct (map fst kvs)" using Cons.prems(1) by simp
  have "fst ` set kvs \<inter> fst ` set (d @ [(k, v)]) = {}"
    using Cons.prems kv by auto
  then have "dict_set_all (d @ [(k, v)]) kvs = (d @ [(k, v)]) @ kvs" using d by (rule Cons.IH [rotated])
  then show ?case using fresh kv by (simp add: dict_set_all_def dict_set_fresh)
qed

lemma metric_assignments_keys: "map fst (metric_assignments sents text nrm) = metric_keys"
  by (simp add: metric_assignments_def metric_keys_def)

lemma narrative_assignments_keys: "map fst (narrative_assignments sents text) = narrative_keys"
  by (simp add: narrative_assignments_def narrative_keys_def)

lemma distinct_keys: "distinct (metric_keys @ narrative_keys)"
  by (simp add: metric_keys_def narrative_keys_def)

lemma extract_metrics_shape:
  assumes "parse_net_revenue_margin text = Inr nrm"
  shows "extract_metrics sents text =
           Inr (remove_null_metrics (metric_assignments sents text nrm) @ narrative_assignments sents text)"
proof -
  have dm: "distinct (map fst (metric_assignments sents text nrm))"
    using distinct_keys by (simp add: metric_assignments_keys)
  have dn: "distinct (map fst (narrative_assignments sents text))"
    using distinct_keys by (simp add: narrative_assignments_keys)
  have 1: "dict_set_all [] (metric_assignments sents text nrm) = metric_assignments sents text nrm"
    using dict_set_all_fresh [OF dm, of "[]"] by simp
  have "set (map fst (metric_assignments sents text nrm)) = set metric_keys"
    by (simp only: metric_assignments_keys)
  then have "fst ` set (metric_assignments sents text nrm) = set metric_keys" by simp
  then have "fst ` set (remove_null_metrics (metric_assignments sents text nrm)) \<subseteq> set metric_keys"
    by (auto simp: remove_null_metrics_def)
  moreover have "set metric_keys \<inter> set narrative_keys = {}" using distinct_keys by auto
  moreover have "fst ` set (narrative_assignments sents text) = set narrative_keys"
  proof -
    have "set (map fst (narrative_assignments sents text)) = set narrative_keys"
      by (simp only: narrative_assignments_keys)
    then show ?thesis by simp
  qed
  ultimately have "fst ` set (narrative_assignments sents text) \<inter>
      fst ` set (remove_null_metrics (metric_assignments sents text nrm)) = {}" by blast
  then have 2: "dict_set_all (remove_null_metrics (metric_assignments sents text nrm)) (narrative_assignments sents text)
      = remove_null_metrics (metric_assignments sents text nrm) @ narrative_assignments sents text"
    using dn by (rule dict_set_all_fresh [rotated])
  show ?thesis using assms 1 2 by (simp add: extract_metrics_def Let_def)
qed

lemma extract_metrics_Inr:
  "extract_metrics sents text = Inr r \<Longrightarrow> \<exists>nrm. parse_net_revenue_margin text = Inr nrm"
  by (cases "parse_net_revenue_margin text") (auto simp: extract_metrics_def)

lemma map_of_filter_distinct:
  "distinct (map fst kvs) \<Longrightarrow> (k, v) \<in> set kvs \<Longrightarrow>
   map_of (filter (\<lambda>(k, v). P v) kvs) k = (if P v then Some v else None)"
proof (induction kvs)
  case Nil
  then show ?case by simp
next
  case (Cons a kvs)
  obtain k' v' where a: "a = (k', v')" by (cases a)
  show ?case
  proof (cases "(k, v) = a")
    case True
    then have "k' = k" "v' = v" using a by auto
    moreover have "k \<notin> fst ` set kvs" using Cons.prems(1) a \<open>k' = k\<close> by auto
    then have "map_of (filter (\<lambda>(k, v). P v) kvs) k = None"
      by (auto simp: map_of_eq_None_iff)
    ultimately show ?thesis using a by simp
  next
    case False
    then have in_tl: "(k, v) \<in> set kvs" using Cons.prems(2) by auto
    then have "k \<in> fst ` set kvs" by force
    then have "k' \<noteq> k" using Cons.prems(1) a by auto
    moreover have "map_of (filter (\<lambda>(k, v). P v) kvs) k = (if P v then Some v else None)"
      using Cons.IH Cons.prems(1) in_tl by simp
    ultimately show ?thesis using a by simp
  qed
qed

lemma metric_lookup:
  assumes "(k, v) \<in> set (metric_assignments sents text nrm)"
  shows "map_of (remove_null_metrics (metric_assignments sents text nrm) @ narrative_assignments sents text) k
           = (if v = PyNone then None else Some v)"
proof -
  let ?M = "metric_assignments sents text nrm"
  let ?N = "narrative_assignments sents text"
  have dm: "distinct (map fst ?M)" using distinct_keys by (simp add: metric_assignments_keys)
  have "set (map fst ?M) = set metric_keys" by (simp only: metric_assignments_keys)
  then have km: "k \<in> set metric_keys" using assms by force
  have "set (map fst ?N) = set narrative_keys" by (simp only: narrative_assignments_keys)
  moreover have "set metric_keys \<inter> set narrative_keys = {}" using distinct_keys by auto
  ultimately have "k \<notin> fst ` set ?N" using km by auto
  then have n: "map_of ?N k = None" by (simp add: map_of_eq_None_iff)
  have "map_of (filter (\<lambda>(k, v). v \<noteq> PyNone) ?M) k = (if v \<noteq> PyNone then Some v else None)"
    using dm assms by (rule map_of_filter_distinct)
  then show ?thesis using n by (auto simp: remove_null_metrics_def map_add_def split: option.splits)
qed

lemma narrative_lookup:
  assumes "(k, v) \<in> set (narrative_assignments sents text)"
  shows "map_of (remove_null_metrics (metric_assignments sents text nrm) @ narrative_assignments sents text) k
           = Some v"
proof -
  let ?M = "metric_assignments sents text nrm"
  let ?N = "narrative_assignments sents text"
  have dn: "distinct (map fst ?N)" using distinct_keys by (simp add: narrative_assignments_keys)
  have "set (map fst ?N) = set narrative_keys" by (simp only: narrative_assignments_keys)
  then have kn: "k \<in> set narrative_keys" using assms by force
  have "set (map fst ?M) = set metric_keys" by (simp only: metric_assignments_keys)
  moreover have "set metric_keys \<inter> set narrative_keys = {}" using distinct_keys by auto
  ultimately have "k \<notin> fst ` set ?M" using kn by auto
  then have "k \<notin> fst ` set (remove_null_metrics ?M)" by (auto simp: remove_null_metrics_def)
  then have m: "map_of (remove_null_metrics ?M) k = None" by (simp add: map_of_eq_None_iff)
  have "map_of ?N k = Some v" using dn assms by simp
  then show ?thesis using m by (simp add: map_add_def)
qed

lemma narrative_values: "(k, v) \<in> set (narrative_assignments sents text) \<Longrightarrow> \<exists>l. v = PyList l"
  by (auto simp: narrative_assignments_def)

text \<open>
  C2. Whenever the extraction returns a result: no key carries a null value; a metric
  key is present, with the matcher's value, exactly when its matcher returned a value;
  each of the eleven narrative keys is present with the list of its sentences, empty or
  not; every key occurs once; and a text for which the revenue matcher finds nothing
  has no "revenue" key.
\<close>

theorem extract_metrics_prunes:
  assumes "extract_metrics sents text = Inr r"
  shows "(\<forall>(k, v) \<in> set r. v \<noteq> PyNone) \<and>
         (\<exists>nrm. parse_net_revenue_margin text = Inr nrm \<and>
            (\<forall>(k, v) \<in> set (metric_assignments sents text nrm).
               map_of r k = (if v = PyNone then None else Some v))) \<and>
         (\<forall>(k, v) \<in> set (narrative_assignments sents text). map_of r k = Some v \<and> (\<exists>l. v = PyList l)) \<and>
         (\<forall>k \<in> set narrative_keys. \<exists>l. map_of r k = Some (PyList l)) \<and>
         distinct (map fst r) \<and>
         (parse_revenue text = None \<longrightarrow> ''revenue'' \<notin> fst ` set r)"
proof -
  obtain nrm where nrm: "parse_net_revenue_margin text = Inr nrm"
    using assms extract_metrics_Inr by blast
  let ?M = "metric_assignments sents text nrm"
  let ?N = "narrative_assignments sents text"
  have r: "r = remove_null_metrics ?M @ ?N"
    using assms extract_metrics_shape [OF nrm, of sents] by simp
  have 1: "\<forall>(k, v) \<in> set r. v \<noteq> PyNone"
  proof (rule ballI)
    fix kv assume kv: "kv \<in> set r"
    obtain k v where e: "kv = (k, v)" by (cases kv)
    have "(k, v) \<in> set (remove_null_metrics ?M) \<or> (k, v) \<in> set ?N" using kv e r by simp
    then have "v \<noteq> PyNone"
    proof
      assume "(k, v) \<in> set (remove_null_metrics ?M)"
      then show ?thesis by (simp add: remove_null_metrics_def)
    next
      assume "(k, v) \<in> set ?N"
      then obtain l where "v = PyList l" using narrative_values by blast
      then show ?thesis by simp
    qed
    then show "case kv of (k, v) \<Rightarrow> v \<noteq> PyNone" using e by simp
  qed
  have 2: "\<forall>(k, v) \<in> set ?M. map_of r k = (if v = PyNone then None else Some v)"
  proof (rule ballI)
    fix kv assume kv: "kv \<in> set ?M"
    obtain k v where e: "kv = (k, v)" by (cases kv)
    have "map_of r k = (if v = PyNone then None else Some v)"
      unfolding r using kv e by (intro metric_lookup) simp
    then show "case kv of (k, v) \<Rightarrow> map_of r k = (if v = PyNone then None else Some v)" using e by simp
  qed
  have 3: "\<forall>(k, v) \<in> set ?N. map_of r k = Some v \<and> (\<exists>l. v = PyList l)"
  proof (rule ballI)
    fix kv assume kv: "kv \<in> set ?N"
    obtain k v where e: "kv = (k, v)" by (cases kv)
    have in_n: "(k, v) \<in> set ?N" using kv e by simp
    have "map_of r k = Some v" unfolding r using in_n by (rule narrative_lookup)
    moreover have "\<exists>l. v = PyList l" using in_n by (rule narrative_values)
    ultimately show "case kv of (k, v) \<Rightarrow> map_of r k = Some v \<and> (\<exists>l. v = PyList l)" using e by simp
  qed
  have 4: "\<exists>l. map_of r k = Some (PyList l)" if "k \<in> set narrative_keys" for k
  proof -
    have "set (map fst ?N) = set narrative_keys" by (simp only: narrative_assignments_keys)
    then have "k \<in> fst ` set ?N" using that by simp
    then obtain v where in_n: "(k, v) \<in> set ?N" by force
    have "map_of r k = Some v" unfolding r using in_n by (rule narrative_lookup)
    moreover obtain l where "v = PyList l" using in_n narrative_values by blast
    ultimately show ?thesis by simp
  qed
  have 5: "distinct (map fst r)"
  proof -
    have "distinct (map fst ?M @ map fst ?N)"
      using distinct_keys by (simp only: metric_assignments_keys narrative_assignments_keys)
    then have d: "distinct (map fst ?M)" "distinct (map fst ?N)" "set (map fst ?M) \<inter> set (map fst ?N) = {}"
      by simp_all
    have "distinct (map fst (remove_null_metrics ?M))"
      unfolding remove_null_metrics_def using d(1) by (rule distinct_map_filter)
    moreover have "set (map fst (remove_null_metrics ?M)) \<subseteq> set (map fst ?M)"
      by (auto simp: remove_null_metrics_def)
    ultimately show ?thesis unfolding r using d(2) d(3) by auto
  qed
  have 6: "''revenue'' \<notin> fst ` set r" if "parse_revenue text = None"
  proof -
    have "hd ?M = (''revenue'', PyNone)" using that by (simp add: metric_assignments_def of_opt_def)
    moreover have "?M \<noteq> []" by (simp add: metric_assignments_def)
    ultimately have "(''revenue'', PyNone) \<in> set ?M" by (metis hd_in_set)
    then have "map_of r ''revenue'' = (if PyNone = PyNone then None else Some PyNone)"
      unfolding r by (rule metric_lookup)
    then show ?thesis by (simp add: map_of_eq_None_iff)
  qed
  show ?thesis
  proof (intro conjI)
    show "\<forall>(k, v) \<in> set r. v \<noteq> PyNone" by (rule 1)
    show "\<exists>nrm. parse_net_revenue_margin text = Inr nrm \<and>
            (\<forall>(k, v) \<in> set (metric_assignments sents text nrm).
               map_of r k = (if v = PyNone then None else Some v))"
      using nrm 2 by (intro exI [of _ nrm] conjI)
    show "\<forall>(k, v) \<in> set (narrative_assignments sents text). map_of r k = Some v \<and> (\<exists>l. v = PyList l)"
      by (rule 3)
    show "\<forall>k \<in> set narrative_keys. \<exists>l. map_of r k = Some (PyList l)" using 4 by (intro ballI)
    show "distinct (map fst r)" by (rule 5)
    show "parse_revenue text = None \<longrightarrow> ''revenue'' \<notin> fst ` set r" using 6 by (intro impI)
  qed
qed

theorem extract_metrics_prunes_witness:
  "parse_revenue ''Flat year.'' = None \<and>
   (\<exists>r. extract_metrics (\<lambda>t. [t]) ''Flat year.'' = Inr r \<and>
        ''revenue'' \<notin> fst ` set r \<and> map_of r ''revenue'' = None \<and>
        map_of r ''guidance'' = Some (PyList []) \<and> list_all (\<lambda>(k, v). v \<noteq> PyNone) r)"
proof -
  have rev: "parse_revenue ''Flat year.'' = None"
    by (simp add: eval_all cong: rx_congs)
  have nrm: "parse_net_revenue_margin ''Flat year.'' = Inr None"
    by (simp add: eval_all cong: rx_congs)
  have g: "extract_guidance_sentences (\<lambda>t. [t]) ''Flat year.'' = []"
    by (simp add: eval_all cong: rx_congs)
  obtain r where r: "extract_metrics (\<lambda>t. [t]) ''Flat year.'' = Inr r"
    using extract_metrics_shape [OF nrm] by blast
  note p = extract_metrics_prunes [OF r]
  have 1: "''revenue'' \<notin> fst ` set r" using p rev by blast
  then have 2: "map_of r ''revenue'' = None" by (simp add: map_of_eq_None_iff)
  have "(''guidance'', PyList (extract_guidance_sentences (\<lambda>t. [t]) ''Flat year.''))
      \<in> set (narrative_assignments (\<lambda>t. [t]) ''Flat year.'')"
    by (simp add: narrative_assignments_def)
  then have 3: "map_of r ''guidance'' = Some (PyList [])" using p g by fastforce
  have 4: "list_all (\<lambda>(k, v). v \<noteq> PyNone) r" using p by (simp add: list_all_iff)
  show ?thesis using rev r 1 2 3 4 by blast
qed

section \<open>Adjusted net income is not net income\<close>




section \<open>Document identity\<close>

lemma split_on_acc_length: "1 \<le> length (split_on_acc sep cur s)"
  by (induction s arbitrary: cur) auto

text \<open>
  C8. A header field counts as resolved when it is a non-empty string. The identity is
  the header's when ticker, quarter, year and earnings date are all resolved, and the
  file name's, in all four fields, as soon as one of them is missing. The file name
  always gives a ticker; it gives a quarter only when it has a second part, and a year
  and a date only when it has at least four parts and the last one starts with four
  digits; the other fields stay unset. Whatever the identity is, a record is returned
  whenever the metric extraction returns, with that identity, the file name and the
  metrics.
\<close>

theorem identity_resolution:
  "(extract_ticker_quarter_year_date text = (t, q, y, d) \<longrightarrow>
      (\<not> falsy t \<and> \<not> falsy q \<and> \<not> falsy y \<and> \<not> falsy d \<longrightarrow>
         resolve_identity fname text = (t, q, y, d)) \<and>
      (t = None \<or> q = None \<or> y = None \<or> d = None \<longrightarrow>
         resolve_identity fname text = extract_from_filename fname) \<and>
      (falsy t \<or> falsy q \<or> falsy y \<or> falsy d \<longrightarrow>
         resolve_identity fname text = extract_from_filename fname)) \<and>
   (\<exists>tk. fst (extract_from_filename fname) = Some tk) \<and>
   (length (split_on (CHR ''_'') (stem fname)) < 2 \<longrightarrow>
      fst (snd (extract_from_filename fname)) = None) \<and>
   (length (split_on (CHR ''_'') (stem fname)) < 4 \<longrightarrow>
      snd (snd (extract_from_filename fname)) = (None, None)) \<and>
   (extract_metrics sents text = Inr m \<longrightarrow>
      (\<exists>rc. parse_transcript_file sents fname text = Inr rc \<and>
         (ticker rc, quarter rc, year rc, earnings_date rc) = resolve_identity fname text \<and>
         file_name rc = fname \<and> metrics rc = m)) \<and>
   extract_from_filename ''AAPL_Q3_October_24_2024.txt'' =
     (Some ''AAPL'', Some ''Q3'', Some ''2024'', Some ''October 24 2024'') \<and>
   extract_from_filename ''aapl_Q3.txt'' = (Some ''AAPL'', Some ''Q3'', None, None) \<and>
   extract_from_filename ''AAPL.txt'' = (Some ''AAPL'', None, None, None)"
proof -
  have a: "(\<not> falsy t \<and> \<not> falsy q \<and> \<not> falsy y \<and> \<not> falsy d \<longrightarrow>
         resolve_identity fname text = (t, q, y, d)) \<and>
      (t = None \<or> q = None \<or> y = None \<or> d = None \<longrightarrow>
         resolve_identity fname text = extract_from_filename fname) \<and>
      (falsy t \<or> falsy q \<or> falsy y \<or> falsy d \<longrightarrow>
         resolve_identity fname text = extract_from_filename fname)"
    if "extract_ticker_quarter_year_date text = (t, q, y, d)"
    using that by (auto simp: resolve_identity_def falsy_def)
  have len: "0 < length (split_on (CHR ''_'') (stem fname))"
    using split_on_acc_length [of "CHR ''_''" "[]" "stem fname"] by (auto simp: split_on_def)
  have b: "\<exists>tk. fst (extract_from_filename fname) = Some tk"
    using len by (simp add: extract_from_filename_def Let_def)
  have c: "fst (snd (extract_from_filename fname)) = None"
    if "length (split_on (CHR ''_'') (stem fname)) < 2"
    using that by (simp add: extract_from_filename_def Let_def)
  have d: "snd (snd (extract_from_filename fname)) = (None, None)"
    if "length (split_on (CHR ''_'') (stem fname)) < 4"
    using that by (simp add: extract_from_filename_def Let_def)
  have e: "\<exists>rc. parse_transcript_file sents fname text = Inr rc \<and>
         (ticker rc, quarter rc, year rc, earnings_date rc) = resolve_identity fname text \<and>
         file_name rc = fname \<and> metrics rc = m"
    if "extract_metrics sents text = Inr m"
    using that by (cases "resolve_identity fname text") (simp add: parse_transcript_file_def)
  have parts: "split_on (CHR ''_'') (stem ''AAPL_Q3_October_24_2024.txt'') =
      [''AAPL'', ''Q3'', ''October'', ''24'', ''2024'']"
    by (simp add: split_on_def stem_def)
  have digits: "re_match False (Rep (OneOf [CDigit]) 4 (Some 4) True) ''2024'' \<noteq> None"
    by (simp add: eval_all cong: rx_congs)
  have f1: "extract_from_filename ''AAPL_Q3_October_24_2024.txt'' =
     (Some ''AAPL'', Some ''Q3'', Some ''2024'', Some ''October 24 2024'')"
    unfolding extract_from_filename_def parts Let_def
    using digits by (simp add: upper_def upper_c_Char)
  have f2: "extract_from_filename ''aapl_Q3.txt'' = (Some ''AAPL'', Some ''Q3'', None, None)"
    "extract_from_filename ''AAPL.txt'' = (Some ''AAPL'', None, None, None)"
    by (simp_all add: extract_from_filename_def split_on_def stem_def upper_def upper_c_Char Let_def)
  note f = f1 f2
  show ?thesis using a b c d e f by blast
qed

theorem identity_resolution_witness:
  "extract_ticker_quarter_year_date
     (''Acme Corp (NASDAQ:ACME)'' @ [CHR 0x0A] @ ''Q3 2024 Earnings Call'' @ [CHR 0x0A] @ ''October 24, 2024'' @ [CHR 0x0A] @ ''Operator: welcome'')
     = (Some ''ACME'', Some ''Q3'', Some ''2024'', Some ''October 24, 2024'') \<and>
   resolve_identity ''X_Q1_May_5_2020.txt''
     (''Acme Corp (NASDAQ:ACME)'' @ [CHR 0x0A] @ ''Q3 2024 Earnings Call'' @ [CHR 0x0A] @ ''October 24, 2024'' @ [CHR 0x0A] @ ''Operator: welcome'')
     = (Some ''ACME'', Some ''Q3'', Some ''2024'', Some ''October 24, 2024'') \<and>
   extract_ticker_quarter_year_date ''Acme Corp (NASDAQ:ACME) Q3 2024 Earnings Call''
     = (Some ''ACME'', Some ''Q3'', Some ''2024'', None) \<and>
   resolve_identity ''AAPL.txt'' ''Acme Corp (NASDAQ:ACME) Q3 2024 Earnings Call''
     = (Some ''AAPL'', None, None, None) \<and>
   (\<exists>rc. parse_transcript_file (\<lambda>t. [t]) ''AAPL.txt'' ''Hello.'' = Inr rc \<and>
      (ticker rc, quarter rc, year rc, earnings_date rc) = (Some ''AAPL'', None, None, None) \<and>
      file_name rc = ''AAPL.txt'')"
proof -
  let ?H = "''Acme Corp (NASDAQ:ACME)'' @ [CHR 0x0A] @ ''Q3 2024 Earnings Call'' @ [CHR 0x0A] @ ''October 24, 2024'' @ [CHR 0x0A] @ ''Operator: welcome''"
  have h1: "extract_ticker_quarter_year_date ?H = (Some ''ACME'', Some ''Q3'', Some ''2024'', Some ''October 24, 2024'')"
    by (simp add: eval_all cong: rx_congs)
  have h2: "extract_ticker_quarter_year_date ''Acme Corp (NASDAQ:ACME) Q3 2024 Earnings Call''
     = (Some ''ACME'', Some ''Q3'', Some ''2024'', None)"
    by (simp add: eval_all cong: rx_congs)
  have h3: "extract_ticker_quarter_year_date ''Hello.'' = (None, None, None, None)"
    by (simp add: eval_all cong: rx_congs)
  have nf: "\<not> falsy (Some ''ACME'')" "\<not> falsy (Some ''Q3'')" "\<not> falsy (Some ''2024'')"
    "\<not> falsy (Some ''October 24, 2024'')"
    by (simp_all add: falsy_def)
  have 1: "resolve_identity ''X_Q1_May_5_2020.txt'' ?H = (Some ''ACME'', Some ''Q3'', Some ''2024'', Some ''October 24, 2024'')"
    using identity_resolution [of ?H "Some ''ACME''" "Some ''Q3''" "Some ''2024''" "Some ''October 24, 2024''" "''X_Q1_May_5_2020.txt''"]
      h1 nf by blast
  have fa: "extract_from_filename ''AAPL.txt'' = (Some ''AAPL'', None, None, None)"
    using identity_resolution by blast
  have 2: "resolve_identity ''AAPL.txt'' ''Acme Corp (NASDAQ:ACME) Q3 2024 Earnings Call'' = (Some ''AAPL'', None, None, None)"
    using identity_resolution [of "''Acme Corp (NASDAQ:ACME) Q3 2024 Earnings Call''" "Some ''ACME''" "Some ''Q3''" "Some ''2024''" None "''AAPL.txt''"]
      h2 fa by simp
  have nrm: "parse_net_revenue_margin ''Hello.'' = Inr None"
    by (simp add: eval_all cong: rx_congs)
  obtain m where m: "extract_metrics (\<lambda>t. [t]) ''Hello.'' = Inr m"
    using extract_metrics_shape [OF nrm] by blast
  have r3: "resolve_identity ''AAPL.txt'' ''Hello.'' = (Some ''AAPL'', None, None, None)"
    using identity_resolution [of "''Hello.''" None None None None "''AAPL.txt''"] h3 fa by simp
  have 3: "\<exists>rc. parse_transcript_file (\<lambda>t. [t]) ''AAPL.txt'' ''Hello.'' = Inr rc \<and>
      (ticker rc, quarter rc, year rc, earnings_date rc) = (Some ''AAPL'', None, None, None) \<and>
      file_name rc = ''AAPL.txt''"
    using identity_resolution [of "''Hello.''" None None None None "''AAPL.txt''" "\<lambda>t. [t]" m]
      m r3 by auto
  show ?thesis using h1 h2 1 2 3 by blast
qed

end
